theory Spec2Isabelle
  imports Main
begin

section \<open>Hospital API: the record store and its request handlers\<close>

text \<open>
  The handlers of \<^verbatim>\<open>main.py\<close> over the three tables of \<^verbatim>\<open>models.py\<close>.
  A handler takes the store and returns its response together with the store it leaves
  behind; a raised \<^verbatim>\<open>HTTPException\<close> is the left summand of the response.
  Every handler is one step on the store. The bearer-token dependency
  (\<^verbatim>\<open>get_current_user\<close>) and the validation of a payload against its schema run
  before a handler and never touch the store, so they are not part of the model: a
  handler is given a payload that has passed validation.
\<close>

subsection \<open>Rows and payloads\<close>

datatype dt_date = DtDate int int int

datatype dt_time = DtTime int int

text \<open>The columns of \<^verbatim>\<open>models.py\<close>; a field is prefixed with the initial of its table.\<close>

record Patient =
  p_id :: int
  p_name :: string
  p_phone :: string
  p_age :: int
  p_gender :: string

record Doctor =
  d_id :: int
  d_name :: string
  d_phone :: string
  d_specialty :: string

record Appointment =
  a_id :: int
  a_patient_id :: int
  a_doctor_id :: int
  a_date :: dt_date
  a_time :: dt_time
  a_token_number :: int

text \<open>The request schemas of \<^verbatim>\<open>main.py\<close>.\<close>

record PatientCreate =
  pc_name :: string
  pc_phone :: string
  pc_age :: int
  pc_gender :: string

record DoctorCreate =
  dc_name :: string
  dc_phone :: string
  dc_specialty :: string

record AppointmentCreate =
  ac_patient_id :: int
  ac_doctor_id :: int
  ac_date :: dt_date
  ac_time :: dt_time

subsection \<open>Errors\<close>

text \<open>
  \<^verbatim>\<open>HTTPException(status_code, detail)\<close> is what the handlers raise themselves.
  \<^verbatim>\<open>InvalidRequestError\<close> is what \<^verbatim>\<open>Session.refresh\<close> raises when the row of the
  object is no longer in its table. \<^verbatim>\<open>StoreFailure\<close> stands for any exception of the
  database itself, raised by a commit or a refresh that the database cannot carry out; no
  handler catches it, so it ends the request.
\<close>

datatype error = HTTPException int string | InvalidRequestError | StoreFailure

definition patient_not_found :: error where
  "patient_not_found = HTTPException 404 ''Patient not found''"

definition doctor_not_found :: error where
  "doctor_not_found = HTTPException 404 ''Doctor not found''"

definition appointment_not_found :: error where
  "appointment_not_found = HTTPException 404 ''Appointment not found''"

subsection \<open>The store\<close>

text \<open>
  Modelled from the spec: the generation of primary keys. The engine and the session
  come from \<^verbatim>\<open>database.py\<close>, which is not among the sources; the spec has the store
  return "the unique generated identifier on creation", with ids "unique and increasing"
  and the first id of each kind being 1. Each table therefore carries the next id it
  hands out.
\<close>

record store =
  patients :: "Patient list"
  doctors :: "Doctor list"
  appointments :: "Appointment list"
  next_patient_id :: int
  next_doctor_id :: int
  next_appointment_id :: int

definition empty_store :: store where
  "empty_store = \<lparr>patients = [], doctors = [], appointments = [],
     next_patient_id = 1, next_doctor_id = 1, next_appointment_id = 1\<rparr>"

type_synonym 'a response = "(error + 'a) \<times> store"

text \<open>\<^verbatim>\<open>db.query(T).filter(T.id == k).first()\<close>\<close>

definition first_patient :: "int \<Rightarrow> store \<Rightarrow> Patient option" where
  "first_patient k s = find (\<lambda>p. p_id p = k) (patients s)"

definition first_doctor :: "int \<Rightarrow> store \<Rightarrow> Doctor option" where
  "first_doctor k s = find (\<lambda>d. d_id d = k) (doctors s)"

definition first_appointment :: "int \<Rightarrow> store \<Rightarrow> Appointment option" where
  "first_appointment k s = find (\<lambda>a. a_id a = k) (appointments s)"

text \<open>\<^verbatim>\<open>db.refresh(obj)\<close>: the object is read again from its row.\<close>

definition refresh_patient :: "int \<Rightarrow> store \<Rightarrow> Patient response" where
  "refresh_patient k s =
     (case first_patient k s of
        None \<Rightarrow> (Inl InvalidRequestError, s)
      | Some p \<Rightarrow> (Inr p, s))"

definition refresh_doctor :: "int \<Rightarrow> store \<Rightarrow> Doctor response" where
  "refresh_doctor k s =
     (case first_doctor k s of
        None \<Rightarrow> (Inl InvalidRequestError, s)
      | Some d \<Rightarrow> (Inr d, s))"

definition refresh_appointment :: "int \<Rightarrow> store \<Rightarrow> Appointment response" where
  "refresh_appointment k s =
     (case first_appointment k s of
        None \<Rightarrow> (Inl InvalidRequestError, s)
      | Some a \<Rightarrow> (Inr a, s))"

subsection \<open>Patients CRUD\<close>

definition create_patient :: "PatientCreate \<Rightarrow> store \<Rightarrow> Patient response" where
  "create_patient payload s =
     (let k = next_patient_id s;
          p = \<lparr>p_id = k, p_name = pc_name payload, p_phone = pc_phone payload,
               p_age = pc_age payload, p_gender = pc_gender payload\<rparr>;
          s1 = s\<lparr>patients := patients s @ [p], next_patient_id := k + 1\<rparr>
      in refresh_patient k s1)"

definition list_patients :: "store \<Rightarrow> (Patient list) response" where
  "list_patients s = (Inr (patients s), s)"

definition get_patient :: "int \<Rightarrow> store \<Rightarrow> Patient response" where
  "get_patient patient_id s =
     (case first_patient patient_id s of
        None \<Rightarrow> (Inl patient_not_found, s)
      | Some p \<Rightarrow> (Inr p, s))"

definition update_patient :: "int \<Rightarrow> PatientCreate \<Rightarrow> store \<Rightarrow> Patient response" where
  "update_patient patient_id payload s =
     (case first_patient patient_id s of
        None \<Rightarrow> (Inl patient_not_found, s)
      | Some p \<Rightarrow>
          (let s1 = s\<lparr>patients :=
                 map (\<lambda>r. if p_id r = p_id p
                           then r\<lparr>p_name := pc_name payload, p_phone := pc_phone payload,
                                  p_age := pc_age payload, p_gender := pc_gender payload\<rparr>
                           else r) (patients s)\<rparr>
           in refresh_patient (p_id p) s1))"

text \<open>
  \<^verbatim>\<open>Patient.appointments\<close> is declared with \<^verbatim>\<open>cascade="all, delete-orphan"\<close>:
  deleting the patient deletes the appointments of its collection, which are the rows
  whose \<^verbatim>\<open>patient_id\<close> is the patient's id.
\<close>

definition delete_patient :: "int \<Rightarrow> store \<Rightarrow> string response" where
  "delete_patient patient_id s =
     (case first_patient patient_id s of
        None \<Rightarrow> (Inl patient_not_found, s)
      | Some p \<Rightarrow>
          (Inr ''Patient deleted'',
           s\<lparr>appointments := filter (\<lambda>a. a_patient_id a \<noteq> p_id p) (appointments s),
             patients := filter (\<lambda>r. p_id r \<noteq> p_id p) (patients s)\<rparr>))"

subsection \<open>Doctors CRUD\<close>

definition create_doctor :: "DoctorCreate \<Rightarrow> store \<Rightarrow> Doctor response" where
  "create_doctor payload s =
     (let k = next_doctor_id s;
          d = \<lparr>d_id = k, d_name = dc_name payload, d_phone = dc_phone payload,
               d_specialty = dc_specialty payload\<rparr>;
          s1 = s\<lparr>doctors := doctors s @ [d], next_doctor_id := k + 1\<rparr>
      in refresh_doctor k s1)"

definition list_doctors :: "store \<Rightarrow> (Doctor list) response" where
  "list_doctors s = (Inr (doctors s), s)"

definition get_doctor :: "int \<Rightarrow> store \<Rightarrow> Doctor response" where
  "get_doctor doctor_id s =
     (case first_doctor doctor_id s of
        None \<Rightarrow> (Inl doctor_not_found, s)
      | Some d \<Rightarrow> (Inr d, s))"

definition update_doctor :: "int \<Rightarrow> DoctorCreate \<Rightarrow> store \<Rightarrow> Doctor response" where
  "update_doctor doctor_id payload s =
     (case first_doctor doctor_id s of
        None \<Rightarrow> (Inl doctor_not_found, s)
      | Some d \<Rightarrow>
          (let s1 = s\<lparr>doctors :=
                 map (\<lambda>r. if d_id r = d_id d
                           then r\<lparr>d_name := dc_name payload, d_phone := dc_phone payload,
                                  d_specialty := dc_specialty payload\<rparr>
                           else r) (doctors s)\<rparr>
           in refresh_doctor (d_id d) s1))"

definition delete_doctor :: "int \<Rightarrow> store \<Rightarrow> string response" where
  "delete_doctor doctor_id s =
     (case first_doctor doctor_id s of
        None \<Rightarrow> (Inl doctor_not_found, s)
      | Some d \<Rightarrow>
          (Inr ''Doctor deleted'',
           s\<lparr>appointments := filter (\<lambda>a. a_doctor_id a \<noteq> d_id d) (appointments s),
             doctors := filter (\<lambda>r. d_id r \<noteq> d_id d) (doctors s)\<rparr>))"

subsection \<open>Appointments CRUD\<close>

text \<open>
  The two commits of \<^verbatim>\<open>create_appointment\<close>. The first inserts the row with
  \<^verbatim>\<open>token_number=0\<close> and yields the generated id; the second writes
  \<^verbatim>\<open>token_number = id\<close> into the row of that id.
\<close>

definition insert_appointment :: "AppointmentCreate \<Rightarrow> store \<Rightarrow> int \<times> store" where
  "insert_appointment payload s =
     (let k = next_appointment_id s;
          appt = \<lparr>a_id = k, a_patient_id = ac_patient_id payload,
                  a_doctor_id = ac_doctor_id payload, a_date = ac_date payload,
                  a_time = ac_time payload, a_token_number = 0\<rparr>
      in (k, s\<lparr>appointments := appointments s @ [appt], next_appointment_id := k + 1\<rparr>))"

definition assign_token :: "int \<Rightarrow> store \<Rightarrow> store" where
  "assign_token k s =
     s\<lparr>appointments :=
         map (\<lambda>r. if a_id r = k then r\<lparr>a_token_number := k\<rparr> else r) (appointments s)\<rparr>"

definition create_appointment :: "AppointmentCreate \<Rightarrow> store \<Rightarrow> Appointment response" where
  "create_appointment payload s =
     (if first_patient (ac_patient_id payload) s = None then (Inl patient_not_found, s)
      else if first_doctor (ac_doctor_id payload) s = None then (Inl doctor_not_found, s)
      else
        (let (k, s1) = insert_appointment payload s
         in case refresh_appointment k s1 of
              (Inl e, s1') \<Rightarrow> (Inl e, s1')
            | (Inr appt, s1') \<Rightarrow> refresh_appointment (a_id appt) (assign_token (a_id appt) s1')))"

text \<open>
  The same handler when one of its store calls raises. After its two checks
  \<^verbatim>\<open>create_appointment\<close> calls the store four times, in this order: the first commit,
  the first refresh, the second commit, the second refresh. The handler has no
  \<^verbatim>\<open>try\<close> and no rollback, and each commit is a transaction of its own: a call that
  raises ends the request and leaves in the store what the commits before it have written.
  The argument names the call that raises, if any.
\<close>

datatype store_call = FirstCommit | FirstRefresh | SecondCommit | SecondRefresh

definition create_appointment_failing ::
    "store_call option \<Rightarrow> AppointmentCreate \<Rightarrow> store \<Rightarrow> Appointment response" where
  "create_appointment_failing fault payload s =
     (if first_patient (ac_patient_id payload) s = None then (Inl patient_not_found, s)
      else if first_doctor (ac_doctor_id payload) s = None then (Inl doctor_not_found, s)
      else if fault = Some FirstCommit then (Inl StoreFailure, s)
      else
        (let (k, s1) = insert_appointment payload s
         in if fault = Some FirstRefresh then (Inl StoreFailure, s1)
            else
              case refresh_appointment k s1 of
                (Inl e, s1') \<Rightarrow> (Inl e, s1')
              | (Inr appt, s1') \<Rightarrow>
                  if fault = Some SecondCommit then (Inl StoreFailure, s1')
                  else
                    (let s2 = assign_token (a_id appt) s1'
                     in if fault = Some SecondRefresh then (Inl StoreFailure, s2)
                        else refresh_appointment (a_id appt) s2)))"

definition list_appointments :: "store \<Rightarrow> (Appointment list) response" where
  "list_appointments s = (Inr (appointments s), s)"

definition get_appointment :: "int \<Rightarrow> store \<Rightarrow> Appointment response" where
  "get_appointment appointment_id s =
     (case first_appointment appointment_id s of
        None \<Rightarrow> (Inl appointment_not_found, s)
      | Some appt \<Rightarrow> (Inr appt, s))"

definition update_appointment :: "int \<Rightarrow> AppointmentCreate \<Rightarrow> store \<Rightarrow> Appointment response" where
  "update_appointment appointment_id payload s =
     (case first_appointment appointment_id s of
        None \<Rightarrow> (Inl appointment_not_found, s)
      | Some appt \<Rightarrow>
          if first_patient (ac_patient_id payload) s = None then (Inl patient_not_found, s)
          else if first_doctor (ac_doctor_id payload) s = None then (Inl doctor_not_found, s)
          else
            (let s1 = s\<lparr>appointments :=
                   map (\<lambda>r. if a_id r = a_id appt
                             then r\<lparr>a_patient_id := ac_patient_id payload,
                                    a_doctor_id := ac_doctor_id payload,
                                    a_date := ac_date payload, a_time := ac_time payload\<rparr>
                             else r) (appointments s)\<rparr>
             in refresh_appointment (a_id appt) s1))"

definition delete_appointment :: "int \<Rightarrow> store \<Rightarrow> string response" where
  "delete_appointment appointment_id s =
     (case first_appointment appointment_id s of
        None \<Rightarrow> (Inl appointment_not_found, s)
      | Some appt \<Rightarrow>
          (Inr ''Appointment deleted'',
           s\<lparr>appointments := filter (\<lambda>r. a_id r \<noteq> a_id appt) (appointments s)\<rparr>))"

subsection \<open>Sequences of requests\<close>

datatype request =
    CreatePatient PatientCreate
  | ListPatients
  | GetPatient int
  | UpdatePatient int PatientCreate
  | DeletePatient int
  | CreateDoctor DoctorCreate
  | ListDoctors
  | GetDoctor int
  | UpdateDoctor int DoctorCreate
  | DeleteDoctor int
  | CreateAppointment AppointmentCreate
  | ListAppointments
  | GetAppointment int
  | UpdateAppointment int AppointmentCreate
  | DeleteAppointment int

text \<open>The store a request leaves behind, whatever its response.\<close>

fun handle :: "request \<Rightarrow> store \<Rightarrow> store" where
  "handle (CreatePatient payload) s = snd (create_patient payload s)"
| "handle ListPatients s = snd (list_patients s)"
| "handle (GetPatient k) s = snd (get_patient k s)"
| "handle (UpdatePatient k payload) s = snd (update_patient k payload s)"
| "handle (DeletePatient k) s = snd (delete_patient k s)"
| "handle (CreateDoctor payload) s = snd (create_doctor payload s)"
| "handle ListDoctors s = snd (list_doctors s)"
| "handle (GetDoctor k) s = snd (get_doctor k s)"
| "handle (UpdateDoctor k payload) s = snd (update_doctor k payload s)"
| "handle (DeleteDoctor k) s = snd (delete_doctor k s)"
| "handle (CreateAppointment payload) s = snd (create_appointment payload s)"
| "handle ListAppointments s = snd (list_appointments s)"
| "handle (GetAppointment k) s = snd (get_appointment k s)"
| "handle (UpdateAppointment k payload) s = snd (update_appointment k payload s)"
| "handle (DeleteAppointment k) s = snd (delete_appointment k s)"

definition run :: "request list \<Rightarrow> store \<Rightarrow> store" where
  "run reqs s = fold handle reqs s"

subsection \<open>Invariants of the store\<close>


text \<open>Every persisted appointment references a persisted patient and a persisted doctor.\<close>

definition no_orphans :: "store \<Rightarrow> bool" where
  "no_orphans s =
     list_all (\<lambda>a. first_patient (a_patient_id a) s \<noteq> None \<and>
                    first_doctor (a_doctor_id a) s \<noteq> None) (appointments s)"

text \<open>Primary keys are unique in their table and below the next id of the table.\<close>

definition keys_ok :: "store \<Rightarrow> bool" where
  "keys_ok s =
     (distinct (map p_id (patients s)) \<and> list_all (\<lambda>p. p_id p < next_patient_id s) (patients s) \<and>
      distinct (map d_id (doctors s)) \<and> list_all (\<lambda>d. d_id d < next_doctor_id s) (doctors s) \<and>
      distinct (map a_id (appointments s)) \<and>
      list_all (\<lambda>a. a_id a < next_appointment_id s) (appointments s))"

subsection \<open>A store with one patient and one doctor\<close>

definition jane :: PatientCreate where
  "jane = \<lparr>pc_name = ''Jane'', pc_phone = ''555'', pc_age = 30, pc_gender = ''F''\<rparr>"

definition smith :: DoctorCreate where
  "smith = \<lparr>dc_name = ''Smith'', dc_phone = ''556'', dc_specialty = ''Cardio''\<rparr>"

definition visit :: "int \<Rightarrow> int \<Rightarrow> int \<Rightarrow> int \<Rightarrow> AppointmentCreate" where
  "visit p d day hour =
     \<lparr>ac_patient_id = p, ac_doctor_id = d, ac_date = DtDate 2024 1 day, ac_time = DtTime hour 0\<rparr>"

definition front_desk :: store where
  "front_desk = run [CreatePatient jane, CreateDoctor smith] empty_store"

definition booked :: store where
  "booked = run [CreateAppointment (visit 1 1 10 9), CreateAppointment (visit 1 1 11 10)] front_desk"

definition admissions :: "request list" where
  "admissions = [CreatePatient jane, CreateDoctor smith,
                 CreateAppointment (visit 1 1 10 9), CreateAppointment (visit 1 1 11 10)]"

subsection \<open>Lookups by key\<close>

lemma find_key_append:
  "find P (xs @ ys) = (case find P xs of None \<Rightarrow> find P ys | Some x \<Rightarrow> Some x)"
  by (induction xs) auto

lemma find_key_map:
  assumes "\<And>r. key (f r) = key r"
  shows "find (\<lambda>r. key r = k) (map f xs) = map_option f (find (\<lambda>r. key r = k) xs)"
  using assms by (induction xs) auto

lemma find_key_filter:
  "find P (filter Q xs) = find (\<lambda>r. Q r \<and> P r) xs"
  by (induction xs) auto

lemma find_key_filter_neq:
  "find (\<lambda>r. key r = k) (filter (\<lambda>r. key r \<noteq> j) xs) =
     (if k = j then None else find (\<lambda>r. key r = k) xs)"
  by (induction xs) auto

lemma find_key_Some:
  "find (\<lambda>r. key r = k) xs = Some r \<Longrightarrow> key r = k \<and> r \<in> set xs"
  by (induction xs) (auto split: if_splits)

lemma find_key_None_iff:
  "find (\<lambda>r. key r = k) xs = None \<longleftrightarrow> k \<notin> key ` set xs"
  by (induction xs) auto

lemma first_patient_None_iff: "first_patient k s = None \<longleftrightarrow> k \<notin> p_id ` set (patients s)"
  unfolding first_patient_def by (rule find_key_None_iff)

lemma first_doctor_None_iff: "first_doctor k s = None \<longleftrightarrow> k \<notin> d_id ` set (doctors s)"
  unfolding first_doctor_def by (rule find_key_None_iff)

lemma first_appointment_None_iff:
  "first_appointment k s = None \<longleftrightarrow> k \<notin> a_id ` set (appointments s)"
  unfolding first_appointment_def by (rule find_key_None_iff)

lemma first_appointment_Some:
  "first_appointment k s = Some a \<Longrightarrow> a_id a = k \<and> a \<in> set (appointments s)"
  unfolding first_appointment_def by (rule find_key_Some)

lemma get_appointment_Inr_iff:
  "get_appointment k s = (Inr a, s') \<longleftrightarrow> first_appointment k s = Some a \<and> s' = s"
  by (auto simp: get_appointment_def split: option.splits)

lemma get_appointment_not_found_iff:
  "get_appointment k s = (Inl appointment_not_found, s) \<longleftrightarrow> k \<notin> a_id ` set (appointments s)"
  by (auto simp: get_appointment_def first_appointment_None_iff[symmetric] split: option.splits)

subsection \<open>Booking\<close>

lemma create_appointment_no_patient:
  "ac_patient_id payload \<notin> p_id ` set (patients s) \<Longrightarrow>
     create_appointment payload s = (Inl patient_not_found, s)"
  by (simp add: create_appointment_def first_patient_None_iff)

lemma create_appointment_no_doctor:
  "ac_patient_id payload \<in> p_id ` set (patients s) \<Longrightarrow>
   ac_doctor_id payload \<notin> d_id ` set (doctors s) \<Longrightarrow>
     create_appointment payload s = (Inl doctor_not_found, s)"
  by (simp add: create_appointment_def first_patient_None_iff first_doctor_None_iff)

text \<open>The row the first refresh reads, and what the second commit makes of it.\<close>

lemma first_appointment_insert:
  "\<exists>r. first_appointment (fst (insert_appointment payload s)) (snd (insert_appointment payload s)) = Some r"
  by (auto simp: insert_appointment_def first_appointment_def Let_def find_key_append
           split: option.splits)

lemma first_appointment_assign_token:
  "first_appointment j (assign_token k s) =
     map_option (\<lambda>r. if a_id r = k then r\<lparr>a_token_number := k\<rparr> else r) (first_appointment j s)"
  unfolding first_appointment_def assign_token_def
  by (simp add: find_key_map [where key = a_id])

lemma create_appointment_ok:
  assumes "ac_patient_id payload \<in> p_id ` set (patients s)"
      and "ac_doctor_id payload \<in> d_id ` set (doctors s)"
  shows "\<exists>r. first_appointment (next_appointment_id s) (snd (insert_appointment payload s)) = Some r \<and>
           create_appointment payload s =
             (Inr (r\<lparr>a_token_number := next_appointment_id s\<rparr>),
              assign_token (next_appointment_id s) (snd (insert_appointment payload s)))"
proof -
  let ?k = "next_appointment_id s"
  let ?s1 = "snd (insert_appointment payload s)"
  have k: "fst (insert_appointment payload s) = ?k"
    by (simp add: insert_appointment_def Let_def)
  from first_appointment_insert [of payload s] obtain r
    where r: "first_appointment ?k ?s1 = Some r" by (auto simp: k)
  then have id: "a_id r = ?k" by (simp add: first_appointment_Some)
  have "create_appointment payload s = (Inr (r\<lparr>a_token_number := ?k\<rparr>), assign_token ?k ?s1)"
    using assms r id k
    by (simp add: create_appointment_def first_patient_None_iff first_doctor_None_iff
          refresh_appointment_def first_appointment_assign_token split_beta)
  with r show ?thesis by blast
qed

lemma first_appointment_insert_fresh:
  assumes "list_all (\<lambda>a. a_id a < next_appointment_id s) (appointments s)"
  shows "first_appointment (next_appointment_id s) (snd (insert_appointment payload s)) =
           Some \<lparr>a_id = next_appointment_id s, a_patient_id = ac_patient_id payload,
                 a_doctor_id = ac_doctor_id payload, a_date = ac_date payload,
                 a_time = ac_time payload, a_token_number = 0\<rparr>"
proof -
  have "find (\<lambda>a. a_id a = next_appointment_id s) (appointments s) = None"
    using assms by (auto simp: find_None_iff list_all_iff)
  then show ?thesis
    by (simp add: insert_appointment_def first_appointment_def Let_def find_key_append)
qed

lemma front_desk_eq:
  "front_desk =
     \<lparr>patients = [\<lparr>p_id = 1, p_name = ''Jane'', p_phone = ''555'', p_age = 30, p_gender = ''F''\<rparr>],
      doctors = [\<lparr>d_id = 1, d_name = ''Smith'', d_phone = ''556'', d_specialty = ''Cardio''\<rparr>],
      appointments = [], next_patient_id = 2, next_doctor_id = 2, next_appointment_id = 1\<rparr>"
  by (simp add: front_desk_def run_def create_patient_def create_doctor_def empty_store_def
        jane_def smith_def refresh_patient_def refresh_doctor_def first_patient_def
        first_doctor_def Let_def)

subsection \<open>Rescheduling and cancelling\<close>

lemma first_appointment_reschedule:
  "first_appointment j
     (s\<lparr>appointments :=
          map (\<lambda>r. if a_id r = k
                    then r\<lparr>a_patient_id := p, a_doctor_id := d, a_date := dt, a_time := tm\<rparr>
                    else r) (appointments s)\<rparr>) =
   map_option (\<lambda>r. if a_id r = k
                    then r\<lparr>a_patient_id := p, a_doctor_id := d, a_date := dt, a_time := tm\<rparr>
                    else r) (first_appointment j s)"
  unfolding first_appointment_def by (simp add: find_key_map [where key = a_id])

lemma update_appointment_no_appointment:
  "k \<notin> a_id ` set (appointments s) \<Longrightarrow>
     update_appointment k payload s = (Inl appointment_not_found, s)"
  by (simp add: update_appointment_def first_appointment_None_iff [symmetric])

lemma update_appointment_no_patient:
  "k \<in> a_id ` set (appointments s) \<Longrightarrow>
   ac_patient_id payload \<notin> p_id ` set (patients s) \<Longrightarrow>
     update_appointment k payload s = (Inl patient_not_found, s)"
  by (auto simp: update_appointment_def first_appointment_None_iff first_patient_None_iff
           split: option.splits)

lemma update_appointment_no_doctor:
  "k \<in> a_id ` set (appointments s) \<Longrightarrow>
   ac_patient_id payload \<in> p_id ` set (patients s) \<Longrightarrow>
   ac_doctor_id payload \<notin> d_id ` set (doctors s) \<Longrightarrow>
     update_appointment k payload s = (Inl doctor_not_found, s)"
  by (auto simp: update_appointment_def first_appointment_None_iff first_patient_None_iff
                 first_doctor_None_iff
           split: option.splits)

lemma update_appointment_ok:
  assumes "first_appointment k s = Some appt"
      and "ac_patient_id payload \<in> p_id ` set (patients s)"
      and "ac_doctor_id payload \<in> d_id ` set (doctors s)"
  shows "update_appointment k payload s =
           (Inr (appt\<lparr>a_patient_id := ac_patient_id payload, a_doctor_id := ac_doctor_id payload,
                      a_date := ac_date payload, a_time := ac_time payload\<rparr>),
            s\<lparr>appointments :=
                map (\<lambda>r. if a_id r = k
                          then r\<lparr>a_patient_id := ac_patient_id payload,
                                 a_doctor_id := ac_doctor_id payload,
                                 a_date := ac_date payload, a_time := ac_time payload\<rparr>
                          else r) (appointments s)\<rparr>)"
proof -
  from assms(1) have id: "a_id appt = k" by (simp add: first_appointment_Some)
  show ?thesis
    using assms id
    by (simp add: update_appointment_def first_patient_None_iff first_doctor_None_iff
          refresh_appointment_def first_appointment_reschedule)
qed

lemma delete_appointment_no_appointment:
  "k \<notin> a_id ` set (appointments s) \<Longrightarrow>
     delete_appointment k s = (Inl appointment_not_found, s)"
  by (simp add: delete_appointment_def first_appointment_None_iff [symmetric])

lemma delete_appointment_ok:
  assumes "k \<in> a_id ` set (appointments s)"
  shows "delete_appointment k s =
           (Inr ''Appointment deleted'',
            s\<lparr>appointments := filter (\<lambda>r. a_id r \<noteq> k) (appointments s)\<rparr>)"
proof -
  from assms obtain appt where a: "first_appointment k s = Some appt"
    by (cases "first_appointment k s") (auto simp: first_appointment_None_iff)
  then have "a_id appt = k" by (simp add: first_appointment_Some)
  with a show ?thesis by (simp add: delete_appointment_def)
qed

lemma first_appointment_cancel:
  "first_appointment j (s\<lparr>appointments := filter (\<lambda>r. a_id r \<noteq> k) (appointments s)\<rparr>) =
     (if j = k then None else first_appointment j s)"
  unfolding first_appointment_def by (simp add: find_key_filter_neq [where key = a_id])

lemma length_filter_key:
  "distinct (map key xs) \<Longrightarrow> k \<in> key ` set xs \<Longrightarrow>
     Suc (length (filter (\<lambda>r. key r \<noteq> k) xs)) = length xs"
proof (induction xs)
  case Nil
  then show ?case by simp
next
  case (Cons x xs)
  show ?case
  proof (cases "key x = k")
    case True
    with Cons.prems have "k \<notin> key ` set xs" by auto
    then have "filter (\<lambda>r. key r \<noteq> k) xs = xs" by (auto simp: filter_id_conv)
    with True show ?thesis by simp
  next
    case False
    with Cons show ?thesis by auto
  qed
qed

lemma booked_eq:
  "booked =
     \<lparr>patients = [\<lparr>p_id = 1, p_name = ''Jane'', p_phone = ''555'', p_age = 30, p_gender = ''F''\<rparr>],
      doctors = [\<lparr>d_id = 1, d_name = ''Smith'', d_phone = ''556'', d_specialty = ''Cardio''\<rparr>],
      appointments =
        [\<lparr>a_id = 1, a_patient_id = 1, a_doctor_id = 1, a_date = DtDate 2024 1 10,
          a_time = DtTime 9 0, a_token_number = 1\<rparr>,
         \<lparr>a_id = 2, a_patient_id = 1, a_doctor_id = 1, a_date = DtDate 2024 1 11,
          a_time = DtTime 10 0, a_token_number = 2\<rparr>],
      next_patient_id = 2, next_doctor_id = 2, next_appointment_id = 3\<rparr>"
  by (simp add: booked_def run_def front_desk_eq visit_def create_appointment_def
        insert_appointment_def assign_token_def refresh_appointment_def first_appointment_def
        first_patient_def first_doctor_def Let_def)

subsection \<open>What a request leaves in the tables\<close>

lemma map_key_update:
  "(\<And>r. key (f r) = key r) \<Longrightarrow> map key (map (\<lambda>r. if key r = k then f r else r) xs) = map key xs"
  by (induction xs) auto

lemma snd_refresh_patient [simp]: "snd (refresh_patient k s) = s"
  by (simp add: refresh_patient_def split: option.splits)

lemma snd_refresh_doctor [simp]: "snd (refresh_doctor k s) = s"
  by (simp add: refresh_doctor_def split: option.splits)

lemma snd_refresh_appointment [simp]: "snd (refresh_appointment k s) = s"
  by (simp add: refresh_appointment_def split: option.splits)

lemma snd_create_patient:
  "snd (create_patient payload s) =
     s\<lparr>patients := patients s @
          [\<lparr>p_id = next_patient_id s, p_name = pc_name payload, p_phone = pc_phone payload,
            p_age = pc_age payload, p_gender = pc_gender payload\<rparr>],
       next_patient_id := next_patient_id s + 1\<rparr>"
  by (simp add: create_patient_def Let_def)

lemma snd_create_doctor:
  "snd (create_doctor payload s) =
     s\<lparr>doctors := doctors s @
          [\<lparr>d_id = next_doctor_id s, d_name = dc_name payload, d_phone = dc_phone payload,
            d_specialty = dc_specialty payload\<rparr>],
       next_doctor_id := next_doctor_id s + 1\<rparr>"
  by (simp add: create_doctor_def Let_def)

lemma first_patient_Some: "first_patient k s = Some p \<Longrightarrow> p_id p = k \<and> p \<in> set (patients s)"
  unfolding first_patient_def by (rule find_key_Some)

lemma first_doctor_Some: "first_doctor k s = Some d \<Longrightarrow> d_id d = k \<and> d \<in> set (doctors s)"
  unfolding first_doctor_def by (rule find_key_Some)

lemma snd_update_patient:
  "snd (update_patient k payload s) = s \<or>
   snd (update_patient k payload s) =
     s\<lparr>patients :=
         map (\<lambda>r. if p_id r = k
                   then r\<lparr>p_name := pc_name payload, p_phone := pc_phone payload,
                          p_age := pc_age payload, p_gender := pc_gender payload\<rparr>
                   else r) (patients s)\<rparr>"
proof (cases "first_patient k s")
  case None
  then show ?thesis by (simp add: update_patient_def)
next
  case (Some p)
  then have "p_id p = k" by (simp add: first_patient_Some)
  with Some show ?thesis by (simp add: update_patient_def)
qed

lemma snd_update_doctor:
  "snd (update_doctor k payload s) = s \<or>
   snd (update_doctor k payload s) =
     s\<lparr>doctors :=
         map (\<lambda>r. if d_id r = k
                   then r\<lparr>d_name := dc_name payload, d_phone := dc_phone payload,
                          d_specialty := dc_specialty payload\<rparr>
                   else r) (doctors s)\<rparr>"
proof (cases "first_doctor k s")
  case None
  then show ?thesis by (simp add: update_doctor_def)
next
  case (Some d)
  then have "d_id d = k" by (simp add: first_doctor_Some)
  with Some show ?thesis by (simp add: update_doctor_def)
qed

lemma delete_patient_no_patient:
  "k \<notin> p_id ` set (patients s) \<Longrightarrow> delete_patient k s = (Inl patient_not_found, s)"
  by (simp add: delete_patient_def first_patient_None_iff [symmetric])

lemma delete_patient_ok:
  assumes "k \<in> p_id ` set (patients s)"
  shows "delete_patient k s =
           (Inr ''Patient deleted'',
            s\<lparr>appointments := filter (\<lambda>a. a_patient_id a \<noteq> k) (appointments s),
              patients := filter (\<lambda>r. p_id r \<noteq> k) (patients s)\<rparr>)"
proof -
  from assms obtain p where p: "first_patient k s = Some p"
    by (cases "first_patient k s") (auto simp: first_patient_None_iff)
  then have "p_id p = k" by (simp add: first_patient_Some)
  with p show ?thesis by (simp add: delete_patient_def)
qed

lemma delete_doctor_no_doctor:
  "k \<notin> d_id ` set (doctors s) \<Longrightarrow> delete_doctor k s = (Inl doctor_not_found, s)"
  by (simp add: delete_doctor_def first_doctor_None_iff [symmetric])

lemma delete_doctor_ok:
  assumes "k \<in> d_id ` set (doctors s)"
  shows "delete_doctor k s =
           (Inr ''Doctor deleted'',
            s\<lparr>appointments := filter (\<lambda>a. a_doctor_id a \<noteq> k) (appointments s),
              doctors := filter (\<lambda>r. d_id r \<noteq> k) (doctors s)\<rparr>)"
proof -
  from assms obtain d where d: "first_doctor k s = Some d"
    by (cases "first_doctor k s") (auto simp: first_doctor_None_iff)
  then have "d_id d = k" by (simp add: first_doctor_Some)
  with d show ?thesis by (simp add: delete_doctor_def)
qed

lemma snd_delete_patient:
  "snd (delete_patient k s) = s \<or>
   snd (delete_patient k s) =
     s\<lparr>appointments := filter (\<lambda>a. a_patient_id a \<noteq> k) (appointments s),
       patients := filter (\<lambda>r. p_id r \<noteq> k) (patients s)\<rparr>"
  by (cases "k \<in> p_id ` set (patients s)")
     (simp_all add: delete_patient_no_patient delete_patient_ok)

lemma snd_delete_doctor:
  "snd (delete_doctor k s) = s \<or>
   snd (delete_doctor k s) =
     s\<lparr>appointments := filter (\<lambda>a. a_doctor_id a \<noteq> k) (appointments s),
       doctors := filter (\<lambda>r. d_id r \<noteq> k) (doctors s)\<rparr>"
  by (cases "k \<in> d_id ` set (doctors s)")
     (simp_all add: delete_doctor_no_doctor delete_doctor_ok)

lemma assign_token_insert:
  "assign_token (next_appointment_id s) (snd (insert_appointment payload s)) =
     s\<lparr>appointments :=
         map (\<lambda>r. if a_id r = next_appointment_id s
                   then r\<lparr>a_token_number := next_appointment_id s\<rparr> else r) (appointments s) @
         [\<lparr>a_id = next_appointment_id s, a_patient_id = ac_patient_id payload,
           a_doctor_id = ac_doctor_id payload, a_date = ac_date payload,
           a_time = ac_time payload, a_token_number = next_appointment_id s\<rparr>],
       next_appointment_id := next_appointment_id s + 1\<rparr>"
  by (simp add: assign_token_def insert_appointment_def Let_def)

lemma snd_create_appointment:
  "snd (create_appointment payload s) = s \<or>
   (ac_patient_id payload \<in> p_id ` set (patients s) \<and>
    ac_doctor_id payload \<in> d_id ` set (doctors s) \<and>
    snd (create_appointment payload s) =
      assign_token (next_appointment_id s) (snd (insert_appointment payload s)))"
proof (cases "ac_patient_id payload \<in> p_id ` set (patients s)")
  case False
  then show ?thesis by (simp add: create_appointment_no_patient)
next
  case p: True
  show ?thesis
  proof (cases "ac_doctor_id payload \<in> d_id ` set (doctors s)")
    case False
    with p show ?thesis by (simp add: create_appointment_no_doctor)
  next
    case True
    from create_appointment_ok [OF p True] obtain r where
      "create_appointment payload s =
         (Inr (r\<lparr>a_token_number := next_appointment_id s\<rparr>),
          assign_token (next_appointment_id s) (snd (insert_appointment payload s)))"
      by blast
    with p True show ?thesis by simp
  qed
qed

lemma snd_update_appointment:
  "snd (update_appointment k payload s) = s \<or>
   (ac_patient_id payload \<in> p_id ` set (patients s) \<and>
    ac_doctor_id payload \<in> d_id ` set (doctors s) \<and>
    snd (update_appointment k payload s) =
      s\<lparr>appointments :=
          map (\<lambda>r. if a_id r = k
                    then r\<lparr>a_patient_id := ac_patient_id payload,
                           a_doctor_id := ac_doctor_id payload,
                           a_date := ac_date payload, a_time := ac_time payload\<rparr>
                    else r) (appointments s)\<rparr>)"
proof (cases "first_appointment k s")
  case None
  then show ?thesis by (simp add: update_appointment_def)
next
  case (Some appt)
  show ?thesis
  proof (cases "ac_patient_id payload \<in> p_id ` set (patients s) \<and>
                ac_doctor_id payload \<in> d_id ` set (doctors s)")
    case True
    with update_appointment_ok [OF Some, of payload] show ?thesis by simp
  next
    case False
    with Some show ?thesis
      by (simp add: update_appointment_def first_patient_None_iff first_doctor_None_iff)
  qed
qed

lemma snd_delete_appointment:
  "snd (delete_appointment k s) = s \<or>
   snd (delete_appointment k s) =
     s\<lparr>appointments := filter (\<lambda>r. a_id r \<noteq> k) (appointments s)\<rparr>"
  by (cases "k \<in> a_id ` set (appointments s)")
     (simp_all add: delete_appointment_no_appointment delete_appointment_ok)

lemma snd_reads [simp]:
  "snd (list_patients s) = s" "snd (get_patient k s) = s"
  "snd (list_doctors s) = s" "snd (get_doctor k s) = s"
  "snd (list_appointments s) = s" "snd (get_appointment k s) = s"
  by (simp_all add: list_patients_def get_patient_def list_doctors_def get_doctor_def
        list_appointments_def get_appointment_def split: option.splits)

subsection \<open>The token invariant\<close>

















subsection \<open>Referential integrity\<close>

lemma no_orphans_iff:
  "no_orphans s \<longleftrightarrow>
     (\<forall>a \<in> set (appointments s).
        a_patient_id a \<in> p_id ` set (patients s) \<and> a_doctor_id a \<in> d_id ` set (doctors s))"
  by (simp add: no_orphans_def list_all_iff first_patient_None_iff first_doctor_None_iff)

lemma image_key_update:
  "(\<And>r. key (f r) = key r) \<Longrightarrow>
     key ` set (map (\<lambda>r. if key r = k then f r else r) xs) = key ` set xs"
proof -
  assume "\<And>r. key (f r) = key r"
  then have "map key (map (\<lambda>r. if key r = k then f r else r) xs) = map key xs"
    by (rule map_key_update)
  then have "set (map key (map (\<lambda>r. if key r = k then f r else r) xs)) = set (map key xs)"
    by simp
  then show ?thesis by (simp only: set_map)
qed

lemma no_orphans_create_patient: "no_orphans s \<Longrightarrow> no_orphans (snd (create_patient x s))"
  by (auto simp: no_orphans_iff snd_create_patient)

lemma no_orphans_create_doctor: "no_orphans s \<Longrightarrow> no_orphans (snd (create_doctor x s))"
  by (auto simp: no_orphans_iff snd_create_doctor)

lemma no_orphans_update_patient:
  assumes "no_orphans s"
  shows "no_orphans (snd (update_patient k x s))"
proof -
  let ?f = "\<lambda>r. r\<lparr>p_name := pc_name x, p_phone := pc_phone x,
                    p_age := pc_age x, p_gender := pc_gender x\<rparr>"
  have "p_id ` set (map (\<lambda>r. if p_id r = k then ?f r else r) (patients s)) = p_id ` set (patients s)"
    by (rule image_key_update) simp
  then have "no_orphans (s\<lparr>patients := map (\<lambda>r. if p_id r = k then ?f r else r) (patients s)\<rparr>)"
    using assms by (simp add: no_orphans_iff)
  with assms snd_update_patient [of k x s] show ?thesis by auto
qed

lemma no_orphans_update_doctor:
  assumes "no_orphans s"
  shows "no_orphans (snd (update_doctor k x s))"
proof -
  let ?f = "\<lambda>r. r\<lparr>d_name := dc_name x, d_phone := dc_phone x, d_specialty := dc_specialty x\<rparr>"
  have "d_id ` set (map (\<lambda>r. if d_id r = k then ?f r else r) (doctors s)) = d_id ` set (doctors s)"
    by (rule image_key_update) simp
  then have "no_orphans (s\<lparr>doctors := map (\<lambda>r. if d_id r = k then ?f r else r) (doctors s)\<rparr>)"
    using assms by (simp add: no_orphans_iff)
  with assms snd_update_doctor [of k x s] show ?thesis by auto
qed

lemma no_orphans_delete_patient:
  assumes "no_orphans s"
  shows "no_orphans (snd (delete_patient k s))"
proof -
  have "no_orphans (s\<lparr>appointments := filter (\<lambda>a. a_patient_id a \<noteq> k) (appointments s),
                       patients := filter (\<lambda>r. p_id r \<noteq> k) (patients s)\<rparr>)"
    using assms by (auto simp: no_orphans_iff)
  with assms snd_delete_patient [of k s] show ?thesis by auto
qed

lemma no_orphans_delete_doctor:
  assumes "no_orphans s"
  shows "no_orphans (snd (delete_doctor k s))"
proof -
  have "no_orphans (s\<lparr>appointments := filter (\<lambda>a. a_doctor_id a \<noteq> k) (appointments s),
                       doctors := filter (\<lambda>r. d_id r \<noteq> k) (doctors s)\<rparr>)"
    using assms by (auto simp: no_orphans_iff)
  with assms snd_delete_doctor [of k s] show ?thesis by auto
qed

lemma no_orphans_create_appointment:
  assumes "no_orphans s"
  shows "no_orphans (snd (create_appointment x s))"
proof -
  have "ac_patient_id x \<in> p_id ` set (patients s) \<Longrightarrow>
        ac_doctor_id x \<in> d_id ` set (doctors s) \<Longrightarrow>
        no_orphans (assign_token (next_appointment_id s) (snd (insert_appointment x s)))"
    using assms by (auto simp: no_orphans_iff assign_token_insert)
  with assms snd_create_appointment [of x s] show ?thesis by auto
qed

lemma no_orphans_update_appointment:
  assumes "no_orphans s"
  shows "no_orphans (snd (update_appointment k x s))"
proof -
  let ?f = "\<lambda>r. if a_id r = k
                 then r\<lparr>a_patient_id := ac_patient_id x, a_doctor_id := ac_doctor_id x,
                        a_date := ac_date x, a_time := ac_time x\<rparr>
                 else r"
  have "ac_patient_id x \<in> p_id ` set (patients s) \<Longrightarrow>
        ac_doctor_id x \<in> d_id ` set (doctors s) \<Longrightarrow>
        no_orphans (s\<lparr>appointments := map ?f (appointments s)\<rparr>)"
    using assms by (auto simp: no_orphans_iff)
  with assms snd_update_appointment [of k x s] show ?thesis by auto
qed

lemma no_orphans_delete_appointment:
  assumes "no_orphans s"
  shows "no_orphans (snd (delete_appointment k s))"
proof -
  have "no_orphans (s\<lparr>appointments := filter (\<lambda>r. a_id r \<noteq> k) (appointments s)\<rparr>)"
    using assms by (auto simp: no_orphans_iff)
  with assms snd_delete_appointment [of k s] show ?thesis by auto
qed

lemma no_orphans_handle: "no_orphans s \<Longrightarrow> no_orphans (handle req s)"
  by (cases req)
     (simp_all add: no_orphans_create_patient no_orphans_update_patient
        no_orphans_delete_patient no_orphans_create_doctor no_orphans_update_doctor
        no_orphans_delete_doctor no_orphans_create_appointment no_orphans_update_appointment
        no_orphans_delete_appointment)

lemma no_orphans_run: "no_orphans s \<Longrightarrow> no_orphans (run reqs s)"
  unfolding run_def by (induction reqs arbitrary: s) (simp_all add: no_orphans_handle)

lemma no_orphans_empty: "no_orphans empty_store"
  by (simp add: no_orphans_def empty_store_def)

subsection \<open>Primary keys\<close>

lemma keys_ok_iff:
  "keys_ok s \<longleftrightarrow>
     distinct (map p_id (patients s)) \<and> (\<forall>i \<in> set (map p_id (patients s)). i < next_patient_id s) \<and>
     distinct (map d_id (doctors s)) \<and> (\<forall>i \<in> set (map d_id (doctors s)). i < next_doctor_id s) \<and>
     distinct (map a_id (appointments s)) \<and>
     (\<forall>i \<in> set (map a_id (appointments s)). i < next_appointment_id s)"
  by (simp add: keys_ok_def list_all_iff)

lemma keys_append:
  "distinct ks \<Longrightarrow> \<forall>i \<in> set ks. i < n \<Longrightarrow>
     distinct (ks @ [n]) \<and> (\<forall>i \<in> set (ks @ [n]). i < n + (1::int))"
  by auto

lemma keys_filter:
  "distinct (map key xs) \<Longrightarrow> \<forall>i \<in> set (map key xs). i < (n::int) \<Longrightarrow>
     distinct (map key (filter P xs)) \<and> (\<forall>i \<in> set (map key (filter P xs)). i < n)"
  by (auto simp: distinct_map_filter)

lemma keys_update:
  assumes "\<And>r. key (f r) = key r"
      and "distinct (map key xs)" and "\<forall>i \<in> set (map key xs). i < (n::int)"
  shows "distinct (map key (map (\<lambda>r. if key r = k then f r else r) xs)) \<and>
         (\<forall>i \<in> set (map key (map (\<lambda>r. if key r = k then f r else r) xs)). i < n)"
  using assms(2,3) by (simp only: map_key_update [of key f, OF assms(1)])

lemma keys_ok_create_patient:
  assumes "keys_ok s"
  shows "keys_ok (snd (create_patient x s))"
proof -
  from assms have "distinct (map p_id (patients s))"
    and "\<forall>i \<in> set (map p_id (patients s)). i < next_patient_id s"
    by (simp_all add: keys_ok_iff)
  from keys_append [OF this] assms show ?thesis
    by (simp add: keys_ok_iff snd_create_patient)
qed

lemma keys_ok_create_doctor:
  assumes "keys_ok s"
  shows "keys_ok (snd (create_doctor x s))"
proof -
  from assms have "distinct (map d_id (doctors s))"
    and "\<forall>i \<in> set (map d_id (doctors s)). i < next_doctor_id s"
    by (simp_all add: keys_ok_iff)
  from keys_append [OF this] assms show ?thesis
    by (simp add: keys_ok_iff snd_create_doctor)
qed

lemma keys_ok_update_patient:
  assumes "keys_ok s"
  shows "keys_ok (snd (update_patient k x s))"
proof -
  let ?f = "\<lambda>r. r\<lparr>p_name := pc_name x, p_phone := pc_phone x,
                    p_age := pc_age x, p_gender := pc_gender x\<rparr>"
  from assms keys_update [of p_id ?f "patients s" "next_patient_id s" k]
  have "keys_ok (s\<lparr>patients := map (\<lambda>r. if p_id r = k then ?f r else r) (patients s)\<rparr>)"
    unfolding keys_ok_iff by simp
  with assms snd_update_patient [of k x s] show ?thesis by auto
qed

lemma keys_ok_update_doctor:
  assumes "keys_ok s"
  shows "keys_ok (snd (update_doctor k x s))"
proof -
  let ?f = "\<lambda>r. r\<lparr>d_name := dc_name x, d_phone := dc_phone x, d_specialty := dc_specialty x\<rparr>"
  from assms keys_update [of d_id ?f "doctors s" "next_doctor_id s" k]
  have "keys_ok (s\<lparr>doctors := map (\<lambda>r. if d_id r = k then ?f r else r) (doctors s)\<rparr>)"
    unfolding keys_ok_iff by simp
  with assms snd_update_doctor [of k x s] show ?thesis by auto
qed

lemma keys_ok_delete_patient:
  assumes "keys_ok s"
  shows "keys_ok (snd (delete_patient k s))"
proof -
  from assms
    keys_filter [of p_id "patients s" "next_patient_id s" "\<lambda>r. p_id r \<noteq> k"]
    keys_filter [of a_id "appointments s" "next_appointment_id s" "\<lambda>a. a_patient_id a \<noteq> k"]
  have "keys_ok (s\<lparr>appointments := filter (\<lambda>a. a_patient_id a \<noteq> k) (appointments s),
                    patients := filter (\<lambda>r. p_id r \<noteq> k) (patients s)\<rparr>)"
    unfolding keys_ok_iff by simp
  with assms snd_delete_patient [of k s] show ?thesis by auto
qed

lemma keys_ok_delete_doctor:
  assumes "keys_ok s"
  shows "keys_ok (snd (delete_doctor k s))"
proof -
  from assms
    keys_filter [of d_id "doctors s" "next_doctor_id s" "\<lambda>r. d_id r \<noteq> k"]
    keys_filter [of a_id "appointments s" "next_appointment_id s" "\<lambda>a. a_doctor_id a \<noteq> k"]
  have "keys_ok (s\<lparr>appointments := filter (\<lambda>a. a_doctor_id a \<noteq> k) (appointments s),
                    doctors := filter (\<lambda>r. d_id r \<noteq> k) (doctors s)\<rparr>)"
    unfolding keys_ok_iff by simp
  with assms snd_delete_doctor [of k s] show ?thesis by auto
qed

lemma keys_ok_create_appointment:
  assumes "keys_ok s"
  shows "keys_ok (snd (create_appointment x s))"
proof -
  let ?k = "next_appointment_id s"
  let ?xs = "map (\<lambda>r. if a_id r = ?k then r\<lparr>a_token_number := ?k\<rparr> else r) (appointments s)"
  have m: "map a_id ?xs = map a_id (appointments s)"
    by (rule map_key_update) simp
  from assms have "distinct (map a_id (appointments s))"
    and "\<forall>i \<in> set (map a_id (appointments s)). i < ?k"
    by (simp_all add: keys_ok_iff)
  from keys_append [OF this]
  have "distinct (map a_id ?xs @ [?k]) \<and> (\<forall>i \<in> set (map a_id ?xs @ [?k]). i < ?k + 1)"
    unfolding m .
  with assms have "keys_ok (assign_token ?k (snd (insert_appointment x s)))"
    unfolding keys_ok_iff assign_token_insert by simp
  with assms snd_create_appointment [of x s] show ?thesis by auto
qed

lemma keys_ok_update_appointment:
  assumes "keys_ok s"
  shows "keys_ok (snd (update_appointment k x s))"
proof -
  let ?f = "\<lambda>r. r\<lparr>a_patient_id := ac_patient_id x, a_doctor_id := ac_doctor_id x,
                    a_date := ac_date x, a_time := ac_time x\<rparr>"
  from assms keys_update [of a_id ?f "appointments s" "next_appointment_id s" k]
  have "keys_ok (s\<lparr>appointments := map (\<lambda>r. if a_id r = k then ?f r else r) (appointments s)\<rparr>)"
    unfolding keys_ok_iff by simp
  with assms snd_update_appointment [of k x s] show ?thesis by auto
qed

lemma keys_ok_delete_appointment:
  assumes "keys_ok s"
  shows "keys_ok (snd (delete_appointment k s))"
proof -
  from assms
    keys_filter [of a_id "appointments s" "next_appointment_id s" "\<lambda>r. a_id r \<noteq> k"]
  have "keys_ok (s\<lparr>appointments := filter (\<lambda>r. a_id r \<noteq> k) (appointments s)\<rparr>)"
    unfolding keys_ok_iff by simp
  with assms snd_delete_appointment [of k s] show ?thesis by auto
qed

lemma keys_ok_handle: "keys_ok s \<Longrightarrow> keys_ok (handle req s)"
  by (cases req)
     (simp_all add: keys_ok_create_patient keys_ok_update_patient keys_ok_delete_patient
        keys_ok_create_doctor keys_ok_update_doctor keys_ok_delete_doctor
        keys_ok_create_appointment keys_ok_update_appointment keys_ok_delete_appointment)

lemma keys_ok_run: "keys_ok s \<Longrightarrow> keys_ok (run reqs s)"
  unfolding run_def by (induction reqs arbitrary: s) (simp_all add: keys_ok_handle)

lemma keys_ok_empty: "keys_ok empty_store"
  by (simp add: keys_ok_def empty_store_def)

subsection \<open>Cascading deletes\<close>

lemma find_key_cascade:
  assumes "distinct (map key xs)" and "r \<in> set xs" and "\<not> Q r"
  shows "find (\<lambda>x. key x = key r) (filter Q xs) = None"
proof -
  have "\<And>x. x \<in> set xs \<Longrightarrow> key x = key r \<Longrightarrow> x = r"
    using assms(1,2) by (metis distinct_map inj_onD)
  with assms(3) show ?thesis by (auto simp: find_None_iff)
qed

lemma delete_patient_cascade:
  assumes "distinct (map a_id (appointments s))"
      and "a \<in> set (appointments s)" and "a_patient_id a = k"
  shows "first_appointment (a_id a)
           (s\<lparr>appointments := filter (\<lambda>a. a_patient_id a \<noteq> k) (appointments s),
              patients := filter (\<lambda>r. p_id r \<noteq> k) (patients s)\<rparr>) = None"
  using find_key_cascade [of a_id "appointments s" a "\<lambda>a. a_patient_id a \<noteq> k"] assms
  by (simp add: first_appointment_def)

lemma delete_doctor_cascade:
  assumes "distinct (map a_id (appointments s))"
      and "a \<in> set (appointments s)" and "a_doctor_id a = k"
  shows "first_appointment (a_id a)
           (s\<lparr>appointments := filter (\<lambda>a. a_doctor_id a \<noteq> k) (appointments s),
              doctors := filter (\<lambda>r. d_id r \<noteq> k) (doctors s)\<rparr>) = None"
  using find_key_cascade [of a_id "appointments s" a "\<lambda>a. a_doctor_id a \<noteq> k"] assms
  by (simp add: first_appointment_def)


subsection \<open>Booking when a store call raises\<close>

lemma create_appointment_failing_None:
  "create_appointment_failing None payload s = create_appointment payload s"
  by (simp add: create_appointment_failing_def create_appointment_def Let_def
           split: prod.splits sum.splits)

lemma insert_appointment_eq:
  "insert_appointment payload s =
     (next_appointment_id s,
      s\<lparr>appointments := appointments s @
           [\<lparr>a_id = next_appointment_id s, a_patient_id = ac_patient_id payload,
             a_doctor_id = ac_doctor_id payload, a_date = ac_date payload,
             a_time = ac_time payload, a_token_number = 0\<rparr>],
        next_appointment_id := next_appointment_id s + 1\<rparr>)"
  by (simp add: insert_appointment_def Let_def)

lemma create_appointment_failing_no_patient:
  "ac_patient_id payload \<notin> p_id ` set (patients s) \<Longrightarrow>
     create_appointment_failing fault payload s = (Inl patient_not_found, s)"
  by (simp add: create_appointment_failing_def first_patient_None_iff)

lemma create_appointment_failing_no_doctor:
  "ac_patient_id payload \<in> p_id ` set (patients s) \<Longrightarrow>
   ac_doctor_id payload \<notin> d_id ` set (doctors s) \<Longrightarrow>
     create_appointment_failing fault payload s = (Inl doctor_not_found, s)"
  by (simp add: create_appointment_failing_def first_patient_None_iff first_doctor_None_iff)

lemma create_appointment_failing_raises:
  assumes "ac_patient_id payload \<in> p_id ` set (patients s)"
      and "ac_doctor_id payload \<in> d_id ` set (doctors s)"
  shows "create_appointment_failing (Some FirstCommit) payload s = (Inl StoreFailure, s)"
    and "create_appointment_failing (Some FirstRefresh) payload s =
           (Inl StoreFailure, snd (insert_appointment payload s))"
    and "create_appointment_failing (Some SecondCommit) payload s =
           (Inl StoreFailure, snd (insert_appointment payload s))"
    and "create_appointment_failing (Some SecondRefresh) payload s =
           (Inl StoreFailure,
            assign_token (next_appointment_id s) (snd (insert_appointment payload s)))"
proof -
  let ?k = "next_appointment_id s"
  let ?s1 = "snd (insert_appointment payload s)"
  have k: "fst (insert_appointment payload s) = ?k"
    by (simp add: insert_appointment_def Let_def)
  from first_appointment_insert [of payload s] obtain r
    where r: "first_appointment ?k ?s1 = Some r" by (auto simp: k)
  then have id: "a_id r = ?k" by (simp add: first_appointment_Some)
  show "create_appointment_failing (Some FirstCommit) payload s = (Inl StoreFailure, s)"
    using assms
    by (simp add: create_appointment_failing_def first_patient_None_iff first_doctor_None_iff)
  show "create_appointment_failing (Some FirstRefresh) payload s = (Inl StoreFailure, ?s1)"
    using assms
    by (simp add: create_appointment_failing_def first_patient_None_iff first_doctor_None_iff
          split_beta)
  show "create_appointment_failing (Some SecondCommit) payload s = (Inl StoreFailure, ?s1)"
    using assms r id k
    by (simp add: create_appointment_failing_def first_patient_None_iff first_doctor_None_iff
          refresh_appointment_def split_beta)
  show "create_appointment_failing (Some SecondRefresh) payload s =
          (Inl StoreFailure, assign_token ?k ?s1)"
    using assms r id k
    by (simp add: create_appointment_failing_def first_patient_None_iff first_doctor_None_iff
          refresh_appointment_def split_beta)
qed

section \<open>The claims\<close>

text \<open>
  C1. In every store that holds a patient with the payload's patient id and a doctor with
  the payload's doctor id, booking succeeds; the appointment it returns has its own id as
  token number, and a get of that id on the store left behind returns an appointment with
  the same token number (the returned one). When moreover the keys of the store are in
  order, the returned appointment is the payload under the next id of the table.
\<close>

theorem book_token_is_id:
  assumes "ac_patient_id payload \<in> p_id ` set (patients s)"
      and "ac_doctor_id payload \<in> d_id ` set (doctors s)"
  shows "\<exists>appt s'. create_appointment payload s = (Inr appt, s') \<and>
           a_token_number appt = a_id appt \<and>
           (\<exists>appt'. get_appointment (a_id appt) s' = (Inr appt', s') \<and>
                     a_token_number appt' = a_token_number appt) \<and>
           (keys_ok s \<longrightarrow>
              appt = \<lparr>a_id = next_appointment_id s, a_patient_id = ac_patient_id payload,
                      a_doctor_id = ac_doctor_id payload, a_date = ac_date payload,
                      a_time = ac_time payload, a_token_number = next_appointment_id s\<rparr>)"
proof -
  let ?k = "next_appointment_id s"
  let ?s1 = "snd (insert_appointment payload s)"
  from create_appointment_ok [OF assms] obtain r
    where r: "first_appointment ?k ?s1 = Some r"
      and c: "create_appointment payload s =
                (Inr (r\<lparr>a_token_number := ?k\<rparr>), assign_token ?k ?s1)"
    by blast
  let ?appt = "r\<lparr>a_token_number := ?k\<rparr>"
  from r have id: "a_id r = ?k" by (simp add: first_appointment_Some)
  then have tok: "a_token_number ?appt = a_id ?appt" by simp
  have "first_appointment (a_id ?appt) (assign_token ?k ?s1) = Some ?appt"
    using r id by (simp add: first_appointment_assign_token)
  then have get: "get_appointment (a_id ?appt) (assign_token ?k ?s1) = (Inr ?appt, assign_token ?k ?s1)"
    by (simp add: get_appointment_Inr_iff)
  have fresh: "keys_ok s \<longrightarrow>
      ?appt = \<lparr>a_id = ?k, a_patient_id = ac_patient_id payload,
               a_doctor_id = ac_doctor_id payload, a_date = ac_date payload,
               a_time = ac_time payload, a_token_number = ?k\<rparr>"
  proof
    assume "keys_ok s"
    then have "list_all (\<lambda>a. a_id a < ?k) (appointments s)" by (simp add: keys_ok_def)
    from first_appointment_insert_fresh [OF this, of payload] r show "?appt = \<lparr>a_id = ?k, a_patient_id = ac_patient_id payload,
               a_doctor_id = ac_doctor_id payload, a_date = ac_date payload,
               a_time = ac_time payload, a_token_number = ?k\<rparr>" by auto
  qed
  from c tok get fresh show ?thesis by blast
qed

theorem book_token_is_id_witness:
  "ac_patient_id (visit 1 1 10 9) \<in> p_id ` set (patients front_desk) \<and>
   ac_doctor_id (visit 1 1 10 9) \<in> d_id ` set (doctors front_desk) \<and>
   keys_ok front_desk \<and>
   (\<exists>appt s'. create_appointment (visit 1 1 10 9) front_desk = (Inr appt, s') \<and>
      a_token_number appt = a_id appt \<and>
      (\<exists>appt'. get_appointment (a_id appt) s' = (Inr appt', s') \<and>
                a_token_number appt' = a_token_number appt) \<and>
      appt = \<lparr>a_id = 1, a_patient_id = 1, a_doctor_id = 1, a_date = DtDate 2024 1 10,
              a_time = DtTime 9 0, a_token_number = 1\<rparr>)"
proof -
  have p: "ac_patient_id (visit 1 1 10 9) \<in> p_id ` set (patients front_desk)"
    by (simp add: visit_def front_desk_eq)
  have d: "ac_doctor_id (visit 1 1 10 9) \<in> d_id ` set (doctors front_desk)"
    by (simp add: visit_def front_desk_eq)
  have k: "keys_ok front_desk"
    by (simp add: keys_ok_def front_desk_eq)
  show ?thesis
    using p d k book_token_is_id [OF p d] by (simp add: front_desk_eq visit_def)
qed



text \<open>
  C3, amended. Booking is all or nothing as far as the store does not fail. When the
  patient is missing, or the patient exists and the doctor is missing, booking fails with
  the not-found error of that entity and leaves the store as it was, whichever store call
  would have raised: no partial appointment is persisted. When both exist and no store
  call raises, booking returns an appointment whose token number is its id and which is
  persisted in the store left behind. When both exist and a store call raises, booking
  fails and the store keeps what was committed before: nothing if the first commit
  raises, the new appointment with the placeholder token number 0 if the first refresh or
  the second commit raises, the new appointment with its token number if the second
  refresh raises.
\<close>

theorem book_partial_on_store_failure:
  "(ac_patient_id payload \<notin> p_id ` set (patients s) \<longrightarrow>
      create_appointment_failing fault payload s = (Inl patient_not_found, s)) \<and>
   (ac_patient_id payload \<in> p_id ` set (patients s) \<and>
    ac_doctor_id payload \<notin> d_id ` set (doctors s) \<longrightarrow>
      create_appointment_failing fault payload s = (Inl doctor_not_found, s)) \<and>
   (ac_patient_id payload \<in> p_id ` set (patients s) \<and>
    ac_doctor_id payload \<in> d_id ` set (doctors s) \<longrightarrow>
      (\<exists>appt s'. create_appointment_failing None payload s = (Inr appt, s') \<and>
         create_appointment payload s = (Inr appt, s') \<and>
         a_token_number appt = a_id appt \<and> first_appointment (a_id appt) s' = Some appt \<and>
         appt \<in> set (appointments s')) \<and>
      create_appointment_failing (Some FirstCommit) payload s = (Inl StoreFailure, s) \<and>
      create_appointment_failing (Some FirstRefresh) payload s =
        (Inl StoreFailure,
         s\<lparr>appointments := appointments s @
              [\<lparr>a_id = next_appointment_id s, a_patient_id = ac_patient_id payload,
                a_doctor_id = ac_doctor_id payload, a_date = ac_date payload,
                a_time = ac_time payload, a_token_number = 0\<rparr>],
           next_appointment_id := next_appointment_id s + 1\<rparr>) \<and>
      create_appointment_failing (Some SecondCommit) payload s =
        (Inl StoreFailure,
         s\<lparr>appointments := appointments s @
              [\<lparr>a_id = next_appointment_id s, a_patient_id = ac_patient_id payload,
                a_doctor_id = ac_doctor_id payload, a_date = ac_date payload,
                a_time = ac_time payload, a_token_number = 0\<rparr>],
           next_appointment_id := next_appointment_id s + 1\<rparr>) \<and>
      create_appointment_failing (Some SecondRefresh) payload s =
        (Inl StoreFailure,
         assign_token (next_appointment_id s) (snd (insert_appointment payload s))))"
proof (intro conjI impI)
  assume "ac_patient_id payload \<notin> p_id ` set (patients s)"
  then show "create_appointment_failing fault payload s = (Inl patient_not_found, s)"
    by (rule create_appointment_failing_no_patient)
next
  assume "ac_patient_id payload \<in> p_id ` set (patients s) \<and>
          ac_doctor_id payload \<notin> d_id ` set (doctors s)"
  then show "create_appointment_failing fault payload s = (Inl doctor_not_found, s)"
    by (simp add: create_appointment_failing_no_doctor)
next
  assume h: "ac_patient_id payload \<in> p_id ` set (patients s) \<and>
             ac_doctor_id payload \<in> d_id ` set (doctors s)"
  let ?k = "next_appointment_id s"
  let ?s1 = "snd (insert_appointment payload s)"
  from h create_appointment_ok [of payload s] obtain r
    where r: "first_appointment ?k ?s1 = Some r"
      and c: "create_appointment payload s =
                (Inr (r\<lparr>a_token_number := ?k\<rparr>), assign_token ?k ?s1)"
    by blast
  from r have id: "a_id r = ?k" by (simp add: first_appointment_Some)
  have f: "first_appointment (a_id (r\<lparr>a_token_number := ?k\<rparr>)) (assign_token ?k ?s1) =
             Some (r\<lparr>a_token_number := ?k\<rparr>)"
    using r id by (simp add: first_appointment_assign_token)
  then have m: "r\<lparr>a_token_number := ?k\<rparr> \<in> set (appointments (assign_token ?k ?s1))"
    by (simp add: first_appointment_Some)
  from c f m id
  show "\<exists>appt s'. create_appointment_failing None payload s = (Inr appt, s') \<and>
         create_appointment payload s = (Inr appt, s') \<and>
         a_token_number appt = a_id appt \<and> first_appointment (a_id appt) s' = Some appt \<and>
         appt \<in> set (appointments s')"
    by (simp add: create_appointment_failing_None)
next
  assume "ac_patient_id payload \<in> p_id ` set (patients s) \<and>
          ac_doctor_id payload \<in> d_id ` set (doctors s)"
  then show "create_appointment_failing (Some FirstCommit) payload s = (Inl StoreFailure, s)"
    by (simp add: create_appointment_failing_raises)
next
  assume "ac_patient_id payload \<in> p_id ` set (patients s) \<and>
          ac_doctor_id payload \<in> d_id ` set (doctors s)"
  then show "create_appointment_failing (Some FirstRefresh) payload s =
        (Inl StoreFailure,
         s\<lparr>appointments := appointments s @
              [\<lparr>a_id = next_appointment_id s, a_patient_id = ac_patient_id payload,
                a_doctor_id = ac_doctor_id payload, a_date = ac_date payload,
                a_time = ac_time payload, a_token_number = 0\<rparr>],
           next_appointment_id := next_appointment_id s + 1\<rparr>)"
    by (simp add: create_appointment_failing_raises insert_appointment_eq)
next
  assume "ac_patient_id payload \<in> p_id ` set (patients s) \<and>
          ac_doctor_id payload \<in> d_id ` set (doctors s)"
  then show "create_appointment_failing (Some SecondCommit) payload s =
        (Inl StoreFailure,
         s\<lparr>appointments := appointments s @
              [\<lparr>a_id = next_appointment_id s, a_patient_id = ac_patient_id payload,
                a_doctor_id = ac_doctor_id payload, a_date = ac_date payload,
                a_time = ac_time payload, a_token_number = 0\<rparr>],
           next_appointment_id := next_appointment_id s + 1\<rparr>)"
    by (simp add: create_appointment_failing_raises insert_appointment_eq)
next
  assume "ac_patient_id payload \<in> p_id ` set (patients s) \<and>
          ac_doctor_id payload \<in> d_id ` set (doctors s)"
  then show "create_appointment_failing (Some SecondRefresh) payload s =
        (Inl StoreFailure,
         assign_token (next_appointment_id s) (snd (insert_appointment payload s)))"
    by (simp add: create_appointment_failing_raises)
qed

theorem book_partial_on_store_failure_witness:
  "ac_patient_id (visit 99 1 10 9) \<notin> p_id ` set (patients front_desk) \<and>
   create_appointment_failing (Some SecondCommit) (visit 99 1 10 9) front_desk =
     (Inl patient_not_found, front_desk) \<and>
   ac_patient_id (visit 1 77 10 9) \<in> p_id ` set (patients front_desk) \<and>
   ac_doctor_id (visit 1 77 10 9) \<notin> d_id ` set (doctors front_desk) \<and>
   create_appointment_failing (Some SecondCommit) (visit 1 77 10 9) front_desk =
     (Inl doctor_not_found, front_desk) \<and>
   ac_patient_id (visit 1 1 10 9) \<in> p_id ` set (patients front_desk) \<and>
   ac_doctor_id (visit 1 1 10 9) \<in> d_id ` set (doctors front_desk) \<and>
   (\<exists>appt s'. create_appointment_failing None (visit 1 1 10 9) front_desk = (Inr appt, s') \<and>
      create_appointment (visit 1 1 10 9) front_desk = (Inr appt, s') \<and>
      a_token_number appt = a_id appt \<and> first_appointment (a_id appt) s' = Some appt \<and>
      appt \<in> set (appointments s')) \<and>
   create_appointment_failing (Some FirstCommit) (visit 1 1 10 9) front_desk =
     (Inl StoreFailure, front_desk) \<and>
   fst (create_appointment_failing (Some SecondCommit) (visit 1 1 10 9) front_desk) =
     Inl StoreFailure \<and>
   appointments (snd (create_appointment_failing (Some SecondCommit) (visit 1 1 10 9) front_desk)) =
     [\<lparr>a_id = 1, a_patient_id = 1, a_doctor_id = 1, a_date = DtDate 2024 1 10,
       a_time = DtTime 9 0, a_token_number = 0\<rparr>]"
proof -
  have n: "ac_patient_id (visit 99 1 10 9) \<notin> p_id ` set (patients front_desk)"
    by (simp add: visit_def front_desk_eq)
  have p7: "ac_patient_id (visit 1 77 10 9) \<in> p_id ` set (patients front_desk)"
    by (simp add: visit_def front_desk_eq)
  have d7: "ac_doctor_id (visit 1 77 10 9) \<notin> d_id ` set (doctors front_desk)"
    by (simp add: visit_def front_desk_eq)
  have p: "ac_patient_id (visit 1 1 10 9) \<in> p_id ` set (patients front_desk)"
    by (simp add: visit_def front_desk_eq)
  have d: "ac_doctor_id (visit 1 1 10 9) \<in> d_id ` set (doctors front_desk)"
    by (simp add: visit_def front_desk_eq)
  note a = book_partial_on_store_failure
             [of "visit 99 1 10 9" front_desk "Some SecondCommit", THEN conjunct1, THEN mp, OF n]
  note b = book_partial_on_store_failure
             [of "visit 1 77 10 9" front_desk "Some SecondCommit", THEN conjunct2, THEN conjunct1,
              THEN mp, OF conjI [OF p7 d7]]
  note c = book_partial_on_store_failure
             [of "visit 1 1 10 9" front_desk None, THEN conjunct2, THEN conjunct2,
              THEN mp, OF conjI [OF p d]]
  note c1 = c [THEN conjunct1]
  note c2 = c [THEN conjunct2, THEN conjunct1]
  note c4 = c [THEN conjunct2, THEN conjunct2, THEN conjunct2, THEN conjunct1]
  from c4 have e: "fst (create_appointment_failing (Some SecondCommit) (visit 1 1 10 9) front_desk) =
                     Inl StoreFailure"
    by simp
  from c4 have r: "appointments (snd (create_appointment_failing (Some SecondCommit)
                     (visit 1 1 10 9) front_desk)) =
     [\<lparr>a_id = 1, a_patient_id = 1, a_doctor_id = 1, a_date = DtDate 2024 1 10,
       a_time = DtTime 9 0, a_token_number = 0\<rparr>]"
    by (simp add: visit_def front_desk_eq)
  show ?thesis by (intro conjI n a p7 d7 b p d c1 c2 e r)
qed

text \<open>
  C3 as stated fails: with the patient and the doctor present and the second commit
  raising, booking fails and the store is not the store it started from; the appointment
  with token number 0 is persisted.
\<close>

theorem book_not_atomic_counterexample:
  "fst (create_appointment_failing (Some SecondCommit) (visit 1 1 10 9) front_desk) =
     Inl StoreFailure \<and>
   snd (create_appointment_failing (Some SecondCommit) (visit 1 1 10 9) front_desk) \<noteq>
     front_desk \<and>
   appointments front_desk = [] \<and>
   appointments (snd (create_appointment_failing (Some SecondCommit) (visit 1 1 10 9) front_desk)) =
     [\<lparr>a_id = 1, a_patient_id = 1, a_doctor_id = 1, a_date = DtDate 2024 1 10,
       a_time = DtTime 9 0, a_token_number = 0\<rparr>]"
proof -
  have r: "create_appointment_failing (Some SecondCommit) (visit 1 1 10 9) front_desk =
             (Inl StoreFailure,
              front_desk\<lparr>appointments :=
                [\<lparr>a_id = 1, a_patient_id = 1, a_doctor_id = 1, a_date = DtDate 2024 1 10,
                  a_time = DtTime 9 0, a_token_number = 0\<rparr>],
                next_appointment_id := 2\<rparr>)"
    by (simp add: create_appointment_failing_def insert_appointment_def refresh_appointment_def
          first_appointment_def first_patient_def first_doctor_def visit_def front_desk_eq)
  have e: "appointments front_desk = []" by (simp add: front_desk_eq)
  have "appointments (snd (create_appointment_failing (Some SecondCommit) (visit 1 1 10 9)
          front_desk)) \<noteq> appointments front_desk"
    by (simp add: r e)
  then have ne: "snd (create_appointment_failing (Some SecondCommit) (visit 1 1 10 9) front_desk) \<noteq>
                   front_desk"
    by auto
  from r e ne show ?thesis by simp
qed

text \<open>
  C4. In a store whose appointment ids are unique (the primary key of the table), deleting
  an existing patient succeeds and every appointment that referenced the patient is gone
  from the store left behind: a get of its id fails with "Appointment not found", it is
  not in the list, and no remaining appointment references the patient. Deleting an
  existing doctor behaves the same way. After any sequence of requests on the empty store
  the appointment ids are unique and every persisted appointment references a persisted
  patient and a persisted doctor.
\<close>

theorem delete_cascades:
  "(distinct (map a_id (appointments s)) \<and> k \<in> p_id ` set (patients s) \<longrightarrow>
      (\<exists>s'. delete_patient k s = (Inr ''Patient deleted'', s') \<and>
         (\<forall>a \<in> set (appointments s). a_patient_id a = k \<longrightarrow>
            get_appointment (a_id a) s' = (Inl appointment_not_found, s') \<and>
            (\<exists>appts. list_appointments s' = (Inr appts, s') \<and> a \<notin> set appts)) \<and>
         (\<forall>a \<in> set (appointments s'). a_patient_id a \<noteq> k))) \<and>
   (distinct (map a_id (appointments s)) \<and> j \<in> d_id ` set (doctors s) \<longrightarrow>
      (\<exists>s'. delete_doctor j s = (Inr ''Doctor deleted'', s') \<and>
         (\<forall>a \<in> set (appointments s). a_doctor_id a = j \<longrightarrow>
            get_appointment (a_id a) s' = (Inl appointment_not_found, s') \<and>
            (\<exists>appts. list_appointments s' = (Inr appts, s') \<and> a \<notin> set appts)) \<and>
         (\<forall>a \<in> set (appointments s'). a_doctor_id a \<noteq> j))) \<and>
   distinct (map a_id (appointments (run reqs empty_store))) \<and>
   (\<forall>a \<in> set (appointments (run reqs empty_store)).
      a_patient_id a \<in> p_id ` set (patients (run reqs empty_store)) \<and>
      a_doctor_id a \<in> d_id ` set (doctors (run reqs empty_store)))"
proof (intro conjI impI)
  assume h: "distinct (map a_id (appointments s)) \<and> k \<in> p_id ` set (patients s)"
  let ?s' = "s\<lparr>appointments := filter (\<lambda>a. a_patient_id a \<noteq> k) (appointments s),
               patients := filter (\<lambda>r. p_id r \<noteq> k) (patients s)\<rparr>"
  from h have d: "distinct (map a_id (appointments s))" by simp
  from h have del: "delete_patient k s = (Inr ''Patient deleted'', ?s')"
    by (simp add: delete_patient_ok)
  have gone: "\<forall>a \<in> set (appointments s). a_patient_id a = k \<longrightarrow>
            get_appointment (a_id a) ?s' = (Inl appointment_not_found, ?s') \<and>
            (\<exists>appts. list_appointments ?s' = (Inr appts, ?s') \<and> a \<notin> set appts)"
  proof (intro ballI impI conjI)
    fix a assume a: "a \<in> set (appointments s)" "a_patient_id a = k"
    from delete_patient_cascade [OF d a]
    show "get_appointment (a_id a) ?s' = (Inl appointment_not_found, ?s')"
      by (simp add: get_appointment_def)
    from a show "\<exists>appts. list_appointments ?s' = (Inr appts, ?s') \<and> a \<notin> set appts"
      by (simp add: list_appointments_def)
  qed
  have rest: "\<forall>a \<in> set (appointments ?s'). a_patient_id a \<noteq> k" by simp
  show "\<exists>s'. delete_patient k s = (Inr ''Patient deleted'', s') \<and>
         (\<forall>a \<in> set (appointments s). a_patient_id a = k \<longrightarrow>
            get_appointment (a_id a) s' = (Inl appointment_not_found, s') \<and>
            (\<exists>appts. list_appointments s' = (Inr appts, s') \<and> a \<notin> set appts)) \<and>
         (\<forall>a \<in> set (appointments s'). a_patient_id a \<noteq> k)"
    by (rule exI [of _ ?s']) (intro conjI del gone rest)
next
  assume h: "distinct (map a_id (appointments s)) \<and> j \<in> d_id ` set (doctors s)"
  let ?s' = "s\<lparr>appointments := filter (\<lambda>a. a_doctor_id a \<noteq> j) (appointments s),
               doctors := filter (\<lambda>r. d_id r \<noteq> j) (doctors s)\<rparr>"
  from h have d: "distinct (map a_id (appointments s))" by simp
  from h have del: "delete_doctor j s = (Inr ''Doctor deleted'', ?s')"
    by (simp add: delete_doctor_ok)
  have gone: "\<forall>a \<in> set (appointments s). a_doctor_id a = j \<longrightarrow>
            get_appointment (a_id a) ?s' = (Inl appointment_not_found, ?s') \<and>
            (\<exists>appts. list_appointments ?s' = (Inr appts, ?s') \<and> a \<notin> set appts)"
  proof (intro ballI impI conjI)
    fix a assume a: "a \<in> set (appointments s)" "a_doctor_id a = j"
    from delete_doctor_cascade [OF d a]
    show "get_appointment (a_id a) ?s' = (Inl appointment_not_found, ?s')"
      by (simp add: get_appointment_def)
    from a show "\<exists>appts. list_appointments ?s' = (Inr appts, ?s') \<and> a \<notin> set appts"
      by (simp add: list_appointments_def)
  qed
  have rest: "\<forall>a \<in> set (appointments ?s'). a_doctor_id a \<noteq> j" by simp
  show "\<exists>s'. delete_doctor j s = (Inr ''Doctor deleted'', s') \<and>
         (\<forall>a \<in> set (appointments s). a_doctor_id a = j \<longrightarrow>
            get_appointment (a_id a) s' = (Inl appointment_not_found, s') \<and>
            (\<exists>appts. list_appointments s' = (Inr appts, s') \<and> a \<notin> set appts)) \<and>
         (\<forall>a \<in> set (appointments s'). a_doctor_id a \<noteq> j)"
    by (rule exI [of _ ?s']) (intro conjI del gone rest)
next
  have "keys_ok (run reqs empty_store)" by (rule keys_ok_run [OF keys_ok_empty])
  then show "distinct (map a_id (appointments (run reqs empty_store)))"
    by (simp add: keys_ok_def)
next
  have "no_orphans (run reqs empty_store)" by (rule no_orphans_run [OF no_orphans_empty])
  then show "\<forall>a \<in> set (appointments (run reqs empty_store)).
      a_patient_id a \<in> p_id ` set (patients (run reqs empty_store)) \<and>
      a_doctor_id a \<in> d_id ` set (doctors (run reqs empty_store))"
    by (simp add: no_orphans_iff)
qed

theorem delete_cascades_witness:
  "distinct (map a_id (appointments booked)) \<and>
   1 \<in> p_id ` set (patients booked) \<and> 1 \<in> d_id ` set (doctors booked) \<and>
   map a_id (appointments booked) = [1, 2] \<and>
   map a_patient_id (appointments booked) = [1, 1] \<and>
   map a_doctor_id (appointments booked) = [1, 1] \<and>
   fst (delete_patient 1 booked) = Inr ''Patient deleted'' \<and>
   fst (get_appointment 1 (snd (delete_patient 1 booked))) = Inl appointment_not_found \<and>
   fst (get_appointment 2 (snd (delete_patient 1 booked))) = Inl appointment_not_found \<and>
   fst (list_appointments (snd (delete_patient 1 booked))) = Inr [] \<and>
   fst (delete_doctor 1 booked) = Inr ''Doctor deleted'' \<and>
   fst (get_appointment 1 (snd (delete_doctor 1 booked))) = Inl appointment_not_found \<and>
   fst (get_appointment 2 (snd (delete_doctor 1 booked))) = Inl appointment_not_found \<and>
   fst (list_appointments (snd (delete_doctor 1 booked))) = Inr [] \<and>
   distinct (map a_id (appointments (run admissions empty_store)))"
proof -
  let ?r1 = "\<lparr>a_id = 1, a_patient_id = 1, a_doctor_id = 1, a_date = DtDate 2024 1 10,
              a_time = DtTime 9 0, a_token_number = 1\<rparr>"
  let ?r2 = "\<lparr>a_id = 2, a_patient_id = 1, a_doctor_id = 1, a_date = DtDate 2024 1 11,
              a_time = DtTime 10 0, a_token_number = 2\<rparr>"
  have k: "distinct (map a_id (appointments booked))" by (simp add: booked_eq)
  have p: "1 \<in> p_id ` set (patients booked)" by (simp add: booked_eq)
  have d: "1 \<in> d_id ` set (doctors booked)" by (simp add: booked_eq)
  have ids: "map a_id (appointments booked) = [1, 2]" by (simp add: booked_eq)
  have ps: "map a_patient_id (appointments booked) = [1, 1]" by (simp add: booked_eq)
  have ds: "map a_doctor_id (appointments booked) = [1, 1]" by (simp add: booked_eq)
  have r1: "?r1 \<in> set (appointments booked)" by (simp add: booked_eq)
  have r2: "?r2 \<in> set (appointments booked)" by (simp add: booked_eq)
  note c = delete_cascades [of booked 1 1 admissions]
  from c [THEN conjunct1, THEN mp, OF conjI [OF k p]] obtain sp
    where delp: "delete_patient 1 booked = (Inr ''Patient deleted'', sp)"
      and gonep: "\<forall>a \<in> set (appointments booked). a_patient_id a = 1 \<longrightarrow>
            get_appointment (a_id a) sp = (Inl appointment_not_found, sp) \<and>
            (\<exists>appts. list_appointments sp = (Inr appts, sp) \<and> a \<notin> set appts)"
    by (elim exE conjE)
  from c [THEN conjunct2, THEN conjunct1, THEN mp, OF conjI [OF k d]] obtain sd
    where deld: "delete_doctor 1 booked = (Inr ''Doctor deleted'', sd)"
      and goned: "\<forall>a \<in> set (appointments booked). a_doctor_id a = 1 \<longrightarrow>
            get_appointment (a_id a) sd = (Inl appointment_not_found, sd) \<and>
            (\<exists>appts. list_appointments sd = (Inr appts, sd) \<and> a \<notin> set appts)"
    by (elim exE conjE)
  from gonep [THEN bspec, OF r1] gonep [THEN bspec, OF r2] delp
  have gp: "fst (get_appointment 1 (snd (delete_patient 1 booked))) = Inl appointment_not_found"
           "fst (get_appointment 2 (snd (delete_patient 1 booked))) = Inl appointment_not_found"
    by simp_all
  from goned [THEN bspec, OF r1] goned [THEN bspec, OF r2] deld
  have gd: "fst (get_appointment 1 (snd (delete_doctor 1 booked))) = Inl appointment_not_found"
           "fst (get_appointment 2 (snd (delete_doctor 1 booked))) = Inl appointment_not_found"
    by simp_all
  have lp: "fst (list_appointments (snd (delete_patient 1 booked))) = Inr []"
    by (simp add: delete_patient_def first_patient_def list_appointments_def booked_eq)
  have ld: "fst (list_appointments (snd (delete_doctor 1 booked))) = Inr []"
    by (simp add: delete_doctor_def first_doctor_def list_appointments_def booked_eq)
  from delp have fp: "fst (delete_patient 1 booked) = Inr ''Patient deleted''" by simp
  from deld have fd: "fst (delete_doctor 1 booked) = Inr ''Doctor deleted''" by simp
  show ?thesis
    by (intro conjI k p d ids ps ds fp gp lp fd gd ld
          c [THEN conjunct2, THEN conjunct2, THEN conjunct1])
qed

text \<open>
  C5. Rescheduling an existing appointment to an existing patient and doctor returns that
  appointment with patient id, doctor id, date and time overwritten from the payload and
  every other field, the token number among them, as before; a get of the id then returns
  it. No token number in the table changes, the other appointments are found as before
  and the patients and doctors are untouched. Rescheduling an id that no appointment has
  fails with "Appointment not found".
\<close>

theorem reschedule_frame:
  "(get_appointment k s = (Inr appt, s) \<and>
    ac_patient_id payload \<in> p_id ` set (patients s) \<and>
    ac_doctor_id payload \<in> d_id ` set (doctors s) \<longrightarrow>
      (\<exists>appt' s'. update_appointment k payload s = (Inr appt', s') \<and>
         appt' = appt\<lparr>a_patient_id := ac_patient_id payload,
                       a_doctor_id := ac_doctor_id payload,
                       a_date := ac_date payload, a_time := ac_time payload\<rparr> \<and>
         a_token_number appt' = a_token_number appt \<and>
         get_appointment k s' = (Inr appt', s') \<and>
         map a_token_number (appointments s') = map a_token_number (appointments s) \<and>
         (\<forall>j. j \<noteq> k \<longrightarrow> first_appointment j s' = first_appointment j s) \<and>
         patients s' = patients s \<and> doctors s' = doctors s)) \<and>
   (k \<notin> a_id ` set (appointments s) \<longrightarrow>
      update_appointment k payload s = (Inl appointment_not_found, s))"
proof (intro conjI impI)
  assume h: "get_appointment k s = (Inr appt, s) \<and>
    ac_patient_id payload \<in> p_id ` set (patients s) \<and>
    ac_doctor_id payload \<in> d_id ` set (doctors s)"
  let ?f = "\<lambda>r. if a_id r = k
                 then r\<lparr>a_patient_id := ac_patient_id payload,
                        a_doctor_id := ac_doctor_id payload,
                        a_date := ac_date payload, a_time := ac_time payload\<rparr>
                 else r"
  let ?s' = "s\<lparr>appointments := map ?f (appointments s)\<rparr>"
  from h have a: "first_appointment k s = Some appt" by (simp add: get_appointment_Inr_iff)
  then have id: "a_id appt = k" by (simp add: first_appointment_Some)
  from a h have u: "update_appointment k payload s = (Inr (?f appt), ?s')"
    using update_appointment_ok [of k s appt payload] id by simp
  have g: "get_appointment k ?s' = (Inr (?f appt), ?s')"
    using a by (simp add: get_appointment_Inr_iff first_appointment_reschedule)
  have t: "map a_token_number (appointments ?s') = map a_token_number (appointments s)"
    by (simp add: o_def if_distrib cong: if_cong)
  have o: "\<forall>j. j \<noteq> k \<longrightarrow> first_appointment j ?s' = first_appointment j s"
  proof (intro allI impI)
    fix j assume "j \<noteq> k"
    then show "first_appointment j ?s' = first_appointment j s"
      by (cases "first_appointment j s")
         (auto simp: first_appointment_reschedule dest: first_appointment_Some)
  qed
  from u g t o id
  show "\<exists>appt' s'. update_appointment k payload s = (Inr appt', s') \<and>
         appt' = appt\<lparr>a_patient_id := ac_patient_id payload,
                       a_doctor_id := ac_doctor_id payload,
                       a_date := ac_date payload, a_time := ac_time payload\<rparr> \<and>
         a_token_number appt' = a_token_number appt \<and>
         get_appointment k s' = (Inr appt', s') \<and>
         map a_token_number (appointments s') = map a_token_number (appointments s) \<and>
         (\<forall>j. j \<noteq> k \<longrightarrow> first_appointment j s' = first_appointment j s) \<and>
         patients s' = patients s \<and> doctors s' = doctors s"
    by simp
next
  assume "k \<notin> a_id ` set (appointments s)"
  then show "update_appointment k payload s = (Inl appointment_not_found, s)"
    by (rule update_appointment_no_appointment)
qed

theorem reschedule_frame_witness:
  "get_appointment 1 booked =
     (Inr \<lparr>a_id = 1, a_patient_id = 1, a_doctor_id = 1, a_date = DtDate 2024 1 10,
           a_time = DtTime 9 0, a_token_number = 1\<rparr>, booked) \<and>
   ac_patient_id (visit 1 1 12 11) \<in> p_id ` set (patients booked) \<and>
   ac_doctor_id (visit 1 1 12 11) \<in> d_id ` set (doctors booked) \<and>
   fst (update_appointment 1 (visit 1 1 12 11) booked) =
     Inr \<lparr>a_id = 1, a_patient_id = 1, a_doctor_id = 1, a_date = DtDate 2024 1 12,
          a_time = DtTime 11 0, a_token_number = 1\<rparr> \<and>
   7 \<notin> a_id ` set (appointments booked) \<and>
   update_appointment 7 (visit 1 1 12 11) booked = (Inl appointment_not_found, booked)"
proof -
  have g: "get_appointment 1 booked =
     (Inr \<lparr>a_id = 1, a_patient_id = 1, a_doctor_id = 1, a_date = DtDate 2024 1 10,
           a_time = DtTime 9 0, a_token_number = 1\<rparr>, booked)"
    by (simp add: get_appointment_def first_appointment_def booked_eq)
  have p: "ac_patient_id (visit 1 1 12 11) \<in> p_id ` set (patients booked)"
    by (simp add: visit_def booked_eq)
  have d: "ac_doctor_id (visit 1 1 12 11) \<in> d_id ` set (doctors booked)"
    by (simp add: visit_def booked_eq)
  have n: "7 \<notin> a_id ` set (appointments booked)"
    by (simp add: booked_eq)
  from g p d n
    reschedule_frame [of 1 booked "\<lparr>a_id = 1, a_patient_id = 1, a_doctor_id = 1,
        a_date = DtDate 2024 1 10, a_time = DtTime 9 0, a_token_number = 1\<rparr>" "visit 1 1 12 11"]
    reschedule_frame [of 7 booked undefined "visit 1 1 12 11"]
  show ?thesis by (auto simp: visit_def)
qed

text \<open>
  C6. Booking for a patient id that no patient has fails with "Patient not found" and
  leaves the store as it was, whether or not a doctor has the doctor id; booking for an
  existing patient and a doctor id that no doctor has fails with "Doctor not found". The
  two errors differ, so the response names the missing entity.
\<close>

theorem book_not_found_order:
  "(ac_patient_id payload \<notin> p_id ` set (patients s) \<longrightarrow>
      create_appointment payload s = (Inl patient_not_found, s)) \<and>
   (ac_patient_id payload \<in> p_id ` set (patients s) \<and>
    ac_doctor_id payload \<notin> d_id ` set (doctors s) \<longrightarrow>
      create_appointment payload s = (Inl doctor_not_found, s)) \<and>
   patient_not_found \<noteq> doctor_not_found"
  by (simp add: create_appointment_no_patient create_appointment_no_doctor
        patient_not_found_def doctor_not_found_def)

theorem book_not_found_order_witness:
  "ac_patient_id (visit 99 1 10 9) \<notin> p_id ` set (patients front_desk) \<and>
   create_appointment (visit 99 1 10 9) front_desk = (Inl patient_not_found, front_desk) \<and>
   create_appointment (visit 99 77 10 9) front_desk = (Inl patient_not_found, front_desk) \<and>
   ac_patient_id (visit 1 77 10 9) \<in> p_id ` set (patients front_desk) \<and>
   ac_doctor_id (visit 1 77 10 9) \<notin> d_id ` set (doctors front_desk) \<and>
   create_appointment (visit 1 77 10 9) front_desk = (Inl doctor_not_found, front_desk)"
  using book_not_found_order [of "visit 99 1 10 9" front_desk]
        book_not_found_order [of "visit 99 77 10 9" front_desk]
        book_not_found_order [of "visit 1 77 10 9" front_desk]
  by (simp add: visit_def front_desk_eq)

text \<open>
  C7. Rescheduling checks the appointment first, then the patient, then the doctor. The
  first check that fails decides the response: "Appointment not found", "Patient not
  found" or "Doctor not found", three different errors; in each case the store left
  behind is the store it started from.
\<close>

theorem reschedule_check_order:
  "(k \<notin> a_id ` set (appointments s) \<longrightarrow>
      update_appointment k payload s = (Inl appointment_not_found, s)) \<and>
   (k \<in> a_id ` set (appointments s) \<and> ac_patient_id payload \<notin> p_id ` set (patients s) \<longrightarrow>
      update_appointment k payload s = (Inl patient_not_found, s)) \<and>
   (k \<in> a_id ` set (appointments s) \<and> ac_patient_id payload \<in> p_id ` set (patients s) \<and>
    ac_doctor_id payload \<notin> d_id ` set (doctors s) \<longrightarrow>
      update_appointment k payload s = (Inl doctor_not_found, s)) \<and>
   distinct [appointment_not_found, patient_not_found, doctor_not_found]"
  by (simp add: update_appointment_no_appointment update_appointment_no_patient
        update_appointment_no_doctor appointment_not_found_def patient_not_found_def
        doctor_not_found_def)

theorem reschedule_check_order_witness:
  "7 \<notin> a_id ` set (appointments booked) \<and>
   update_appointment 7 (visit 99 77 12 11) booked = (Inl appointment_not_found, booked) \<and>
   1 \<in> a_id ` set (appointments booked) \<and>
   ac_patient_id (visit 99 77 12 11) \<notin> p_id ` set (patients booked) \<and>
   update_appointment 1 (visit 99 77 12 11) booked = (Inl patient_not_found, booked) \<and>
   ac_patient_id (visit 1 77 12 11) \<in> p_id ` set (patients booked) \<and>
   ac_doctor_id (visit 1 77 12 11) \<notin> d_id ` set (doctors booked) \<and>
   update_appointment 1 (visit 1 77 12 11) booked = (Inl doctor_not_found, booked)"
  using reschedule_check_order [of 7 booked "visit 99 77 12 11"]
        reschedule_check_order [of 1 booked "visit 99 77 12 11"]
        reschedule_check_order [of 1 booked "visit 1 77 12 11"]
  by (simp add: visit_def booked_eq)

text \<open>
  C8. Cancelling an id that no appointment has fails with "Appointment not found" and
  leaves the store as it was. Cancelling an existing appointment succeeds and removes the
  rows of that id and no other: a get of the id then fails with "Appointment not found",
  cancelling it a second time fails with "Appointment not found", every other appointment
  is found as before, with unique ids exactly one row is gone, and the patients and
  doctors are untouched.
\<close>

theorem cancel_once:
  "(k \<notin> a_id ` set (appointments s) \<longrightarrow>
      delete_appointment k s = (Inl appointment_not_found, s)) \<and>
   (k \<in> a_id ` set (appointments s) \<longrightarrow>
      (\<exists>s'. delete_appointment k s = (Inr ''Appointment deleted'', s') \<and>
         get_appointment k s' = (Inl appointment_not_found, s') \<and>
         delete_appointment k s' = (Inl appointment_not_found, s') \<and>
         appointments s' = filter (\<lambda>r. a_id r \<noteq> k) (appointments s) \<and>
         (\<forall>j. j \<noteq> k \<longrightarrow> first_appointment j s' = first_appointment j s) \<and>
         (distinct (map a_id (appointments s)) \<longrightarrow>
            Suc (length (appointments s')) = length (appointments s)) \<and>
         patients s' = patients s \<and> doctors s' = doctors s))"
proof (intro conjI impI)
  assume "k \<notin> a_id ` set (appointments s)"
  then show "delete_appointment k s = (Inl appointment_not_found, s)"
    by (rule delete_appointment_no_appointment)
next
  assume k: "k \<in> a_id ` set (appointments s)"
  let ?s' = "s\<lparr>appointments := filter (\<lambda>r. a_id r \<noteq> k) (appointments s)\<rparr>"
  have d: "delete_appointment k s = (Inr ''Appointment deleted'', ?s')"
    using k by (rule delete_appointment_ok)
  have gone: "k \<notin> a_id ` set (appointments ?s')" by auto
  have g: "get_appointment k ?s' = (Inl appointment_not_found, ?s')"
    unfolding get_appointment_not_found_iff by (rule gone)
  from gone have d2: "delete_appointment k ?s' = (Inl appointment_not_found, ?s')"
    by (rule delete_appointment_no_appointment)
  have o: "\<forall>j. j \<noteq> k \<longrightarrow> first_appointment j ?s' = first_appointment j s"
    by (simp add: first_appointment_cancel)
  have l: "distinct (map a_id (appointments s)) \<longrightarrow>
             Suc (length (appointments ?s')) = length (appointments s)"
    using k by (simp add: length_filter_key)
  from d g d2 o l
  show "\<exists>s'. delete_appointment k s = (Inr ''Appointment deleted'', s') \<and>
         get_appointment k s' = (Inl appointment_not_found, s') \<and>
         delete_appointment k s' = (Inl appointment_not_found, s') \<and>
         appointments s' = filter (\<lambda>r. a_id r \<noteq> k) (appointments s) \<and>
         (\<forall>j. j \<noteq> k \<longrightarrow> first_appointment j s' = first_appointment j s) \<and>
         (distinct (map a_id (appointments s)) \<longrightarrow>
            Suc (length (appointments s')) = length (appointments s)) \<and>
         patients s' = patients s \<and> doctors s' = doctors s"
    by simp
qed

theorem cancel_once_witness:
  "7 \<notin> a_id ` set (appointments booked) \<and>
   delete_appointment 7 booked = (Inl appointment_not_found, booked) \<and>
   1 \<in> a_id ` set (appointments booked) \<and>
   distinct (map a_id (appointments booked)) \<and>
   (\<exists>s'. delete_appointment 1 booked = (Inr ''Appointment deleted'', s') \<and>
      delete_appointment 1 s' = (Inl appointment_not_found, s') \<and>
      map a_id (appointments s') = [2] \<and>
      patients s' = patients booked \<and> doctors s' = doctors booked)"
proof -
  have n: "7 \<notin> a_id ` set (appointments booked)" by (simp add: booked_eq)
  have y: "1 \<in> a_id ` set (appointments booked)" by (simp add: booked_eq)
  have d: "distinct (map a_id (appointments booked))" by (simp add: booked_eq)
  have f: "map a_id (filter (\<lambda>r. a_id r \<noteq> 1) (appointments booked)) = [2]"
    by (simp add: booked_eq)
  from n y d f cancel_once [of 7 booked] cancel_once [of 1 booked]
  show ?thesis by auto
qed

text \<open>
  C9. From the empty store: creating a patient returns id 1, creating a doctor returns
  id 1, the first booking for patient 1 and doctor 1 returns the appointment of id 1 and
  token number 1, the second returns id 2 and token number 2, and a booking for patient
  99 fails with "Patient not found" and leaves the store as it was.
\<close>

theorem front_desk_scenario:
  "(let (r1, s1) = create_patient jane empty_store;
        (r2, s2) = create_doctor smith s1;
        (r3, s3) = create_appointment (visit 1 1 10 9) s2;
        (r4, s4) = create_appointment (visit 1 1 11 10) s3;
        (r5, s5) = create_appointment (visit 99 1 12 9) s4
    in r1 = Inr \<lparr>p_id = 1, p_name = ''Jane'', p_phone = ''555'', p_age = 30, p_gender = ''F''\<rparr> \<and>
       r2 = Inr \<lparr>d_id = 1, d_name = ''Smith'', d_phone = ''556'', d_specialty = ''Cardio''\<rparr> \<and>
       r3 = Inr \<lparr>a_id = 1, a_patient_id = 1, a_doctor_id = 1, a_date = DtDate 2024 1 10,
                 a_time = DtTime 9 0, a_token_number = 1\<rparr> \<and>
       r4 = Inr \<lparr>a_id = 2, a_patient_id = 1, a_doctor_id = 1, a_date = DtDate 2024 1 11,
                 a_time = DtTime 10 0, a_token_number = 2\<rparr> \<and>
       r5 = Inl patient_not_found \<and> s5 = s4)"
  by (simp add: create_patient_def create_doctor_def create_appointment_def empty_store_def
        jane_def smith_def visit_def refresh_patient_def refresh_doctor_def
        refresh_appointment_def first_patient_def first_doctor_def first_appointment_def
        insert_appointment_def assign_token_def Let_def)

text \<open>
  C10. Rescheduling an existing appointment leaves its id unchanged: the returned
  appointment has the id it had, which is the id of the request, a get of that id on the
  store left behind returns it, and the ids of the table are what they were.
\<close>

theorem reschedule_keeps_id:
  assumes "get_appointment k s = (Inr appt, s)"
      and "ac_patient_id payload \<in> p_id ` set (patients s)"
      and "ac_doctor_id payload \<in> d_id ` set (doctors s)"
  shows "\<exists>appt' s'. update_appointment k payload s = (Inr appt', s') \<and>
           a_id appt' = a_id appt \<and> a_id appt' = k \<and>
           get_appointment k s' = (Inr appt', s') \<and>
           map a_id (appointments s') = map a_id (appointments s)"
proof -
  let ?f = "\<lambda>r. if a_id r = k
                 then r\<lparr>a_patient_id := ac_patient_id payload,
                        a_doctor_id := ac_doctor_id payload,
                        a_date := ac_date payload, a_time := ac_time payload\<rparr>
                 else r"
  let ?s' = "s\<lparr>appointments := map ?f (appointments s)\<rparr>"
  from assms(1) have a: "first_appointment k s = Some appt"
    by (simp add: get_appointment_Inr_iff)
  then have id: "a_id appt = k" by (simp add: first_appointment_Some)
  from update_appointment_ok [OF a assms(2,3)] id
  have u: "update_appointment k payload s = (Inr (?f appt), ?s')" by simp
  have g: "get_appointment k ?s' = (Inr (?f appt), ?s')"
    using a by (simp add: get_appointment_Inr_iff first_appointment_reschedule)
  have m: "map a_id (appointments ?s') = map a_id (appointments s)"
    by (simp add: o_def if_distrib cong: if_cong)
  from u g m id show ?thesis by simp
qed

theorem reschedule_keeps_id_witness:
  "get_appointment 2 booked =
     (Inr \<lparr>a_id = 2, a_patient_id = 1, a_doctor_id = 1, a_date = DtDate 2024 1 11,
           a_time = DtTime 10 0, a_token_number = 2\<rparr>, booked) \<and>
   ac_patient_id (visit 1 1 20 8) \<in> p_id ` set (patients booked) \<and>
   ac_doctor_id (visit 1 1 20 8) \<in> d_id ` set (doctors booked) \<and>
   (\<exists>appt' s'. update_appointment 2 (visit 1 1 20 8) booked = (Inr appt', s') \<and>
      a_id appt' = 2 \<and> get_appointment 2 s' = (Inr appt', s') \<and>
      map a_id (appointments s') = [1, 2])"
proof -
  have g: "get_appointment 2 booked =
     (Inr \<lparr>a_id = 2, a_patient_id = 1, a_doctor_id = 1, a_date = DtDate 2024 1 11,
           a_time = DtTime 10 0, a_token_number = 2\<rparr>, booked)"
    by (simp add: get_appointment_def first_appointment_def booked_eq)
  have p: "ac_patient_id (visit 1 1 20 8) \<in> p_id ` set (patients booked)"
    by (simp add: visit_def booked_eq)
  have d: "ac_doctor_id (visit 1 1 20 8) \<in> d_id ` set (doctors booked)"
    by (simp add: visit_def booked_eq)
  have m: "map a_id (appointments booked) = [1, 2]"
    by (simp add: booked_eq)
  from g p d m reschedule_keeps_id [OF g p d] show ?thesis by auto
qed

end
